theory Spec2Isabelle
  imports Main "HOL-Library.Word"
begin

section \<open>JSON values and their serialisation\<close>

text \<open>
  The decoded request body (\<open>await req.json()\<close>) and the objects handed to
  \<open>NextResponse.json\<close> are JSON values. Strings are byte strings (the UTF-8 encoding of
  the JavaScript string); numbers are the integers, printed in decimal; an object is the
  list of its properties in insertion order.
\<close>

datatype json =
    JNull
  | JBool bool
  | JNum int
  | JStr string
  | JArr "json list"
  | JObj "(string \<times> json) list"

text \<open>JavaScript truthiness of a decoded value (the test of \<open>body ? ... : ...\<close>).\<close>

fun truthy :: "json \<Rightarrow> bool" where
  "truthy JNull = False"
| "truthy (JBool b) = b"
| "truthy (JNum n) = (n \<noteq> 0)"
| "truthy (JStr s) = (s \<noteq> [])"
| "truthy (JArr vs) = True"
| "truthy (JObj kvs) = True"

text \<open>Property access \<open>v.k\<close> on a value that is not \<open>null\<close>: \<open>None\<close> is \<open>undefined\<close>.\<close>

fun json_field :: "json \<Rightarrow> string \<Rightarrow> json option" where
  "json_field (JObj kvs) k = map_of kvs k"
| "json_field v k = None"

definition digit_char :: "nat \<Rightarrow> char" where
  "digit_char d = ''0123456789abcdef'' ! d"

fun show_nat :: "nat \<Rightarrow> string" where
  "show_nat n = (if n < 10 then [digit_char n] else show_nat (n div 10) @ [digit_char (n mod 10)])"

declare show_nat.simps [simp del]

definition show_int :: "int \<Rightarrow> string" where
  "show_int i = (if i < 0 then CHR ''-'' # show_nat (nat (- i)) else show_nat (nat i))"

definition quote_char :: "char \<Rightarrow> string" where
  "quote_char c =
     (if c = CHR 0x22 then [CHR 0x5C, CHR 0x22]
      else if c = CHR 0x5C then [CHR 0x5C, CHR 0x5C]
      else if c = CHR 0x08 then [CHR 0x5C, CHR ''b'']
      else if c = CHR 0x0C then [CHR 0x5C, CHR ''f'']
      else if c = CHR 0x0A then [CHR 0x5C, CHR ''n'']
      else if c = CHR 0x0D then [CHR 0x5C, CHR ''r'']
      else if c = CHR 0x09 then [CHR 0x5C, CHR ''t'']
      else if (of_char c :: nat) < 32
        then [CHR 0x5C, CHR ''u'', CHR ''0'', CHR ''0'',
              digit_char (of_char c div 16), digit_char (of_char c mod 16)]
      else [c])"

definition quote :: "string \<Rightarrow> string" where
  "quote s = CHR 0x22 # concat (map quote_char s) @ [CHR 0x22]"

fun join :: "string \<Rightarrow> string list \<Rightarrow> string" where
  "join sep [] = []"
| "join sep [x] = x"
| "join sep (x # y # ys) = x @ sep @ join sep (y # ys)"

fun JSON_stringify :: "json \<Rightarrow> string" where
  "JSON_stringify JNull = ''null''"
| "JSON_stringify (JBool b) = (if b then ''true'' else ''false'')"
| "JSON_stringify (JNum n) = show_int n"
| "JSON_stringify (JStr s) = quote s"
| "JSON_stringify (JArr vs) = ''['' @ join '','' (map JSON_stringify vs) @ '']''"
| "JSON_stringify (JObj kvs) =
     ''{'' @ join '','' (map (\<lambda>kv. quote (fst kv) @ '':'' @ JSON_stringify (snd kv)) kvs) @ ''}''"

section \<open>Responses\<close>

text \<open>
  The constructors of the platform (\<open>Headers\<close>, \<open>Response\<close>) can throw. What they
  throw is one of three errors.
\<close>

datatype platform_error = RangeError_status | TypeError_body_status | TypeError_header

text \<open>
  A \<open>Headers\<close> object is read through \<open>get\<close>, which is case-insensitive and returns the
  values appended under a name joined by a comma and a space. It is modelled as the map
  from the lower-cased name to that combined value.
\<close>

type_synonym headers = "string \<rightharpoonup> string"

definition lower_char :: "char \<Rightarrow> char" where
  "lower_char c =
     (if 65 \<le> (of_char c :: nat) \<and> (of_char c :: nat) \<le> 90
      then char_of ((of_char c :: nat) + 32) else c)"

definition lower :: "string \<Rightarrow> string" where
  "lower s = map lower_char s"

text \<open>
  What \<open>append\<close> accepts (Fetch standard). A name is a token: not empty, of letters,
  digits and the fifteen marks that HTTP allows in a token. A value is a byte string, so it
  has no character above U+00FF (in UTF-8, no byte from \<open>0xC4\<close> on); it is stored without
  the tabs, spaces and line breaks at its two ends, and must then hold no NUL and no line
  break.
\<close>

definition token_char :: "char \<Rightarrow> bool" where
  "token_char c =
     (let n = (of_char c :: nat) in
      (48 \<le> n \<and> n \<le> 57) \<or> (65 \<le> n \<and> n \<le> 90) \<or> (97 \<le> n \<and> n \<le> 122) \<or>
      n \<in> set [0x21, 0x23, 0x24, 0x25, 0x26, 0x27, 0x2A, 0x2B, 0x2D, 0x2E, 0x5E, 0x5F, 0x60,
                 0x7C, 0x7E])"

definition valid_header_name :: "string \<Rightarrow> bool" where
  "valid_header_name name = (name \<noteq> [] \<and> list_all token_char name)"

definition http_whitespace :: "char \<Rightarrow> bool" where
  "http_whitespace c = (c = CHR 0x09 \<or> c = CHR 0x0A \<or> c = CHR 0x0D \<or> c = CHR 0x20)"

definition normalize_value :: "string \<Rightarrow> string" where
  "normalize_value v = rev (dropWhile http_whitespace (rev (dropWhile http_whitespace v)))"

definition valid_header_value :: "string \<Rightarrow> bool" where
  "valid_header_value v =
     (list_all (\<lambda>c. (of_char c :: nat) < 0xC4) v \<and>
      list_all (\<lambda>c. c \<noteq> CHR 0x00 \<and> c \<noteq> CHR 0x0A \<and> c \<noteq> CHR 0x0D) (normalize_value v))"

definition headers_get :: "headers \<Rightarrow> string \<Rightarrow> string option" where
  "headers_get h name = h (lower name)"

definition headers_append :: "string \<Rightarrow> string \<Rightarrow> headers \<Rightarrow> platform_error + headers" where
  "headers_append name v h =
     (if valid_header_name name \<and> valid_header_value v
      then Inr (h(lower name \<mapsto>
                  (case h (lower name) of
                     None \<Rightarrow> normalize_value v
                   | Some old \<Rightarrow> old @ '', '' @ normalize_value v)))
      else Inl TypeError_header)"

text \<open>
  \<open>set\<close>, for a name and a value that are valid and need no trimming (the constants of
  this program).
\<close>

definition headers_set :: "string \<Rightarrow> string \<Rightarrow> headers \<Rightarrow> headers" where
  "headers_set name v h = h(lower name \<mapsto> v)"

text \<open>\<open>new Headers(entries)\<close>: every entry is appended in turn; the first refusal throws.\<close>

fun fill_Headers :: "(string \<times> string) list \<Rightarrow> headers \<Rightarrow> platform_error + headers" where
  "fill_Headers [] h = Inr h"
| "fill_Headers ((k, v) # entries) h =
     (case headers_append k v h of
        Inl e \<Rightarrow> Inl e
      | Inr h' \<Rightarrow> fill_Headers entries h')"

definition new_Headers :: "(string \<times> string) list \<Rightarrow> platform_error + headers" where
  "new_Headers entries = fill_Headers entries Map.empty"

text \<open>
  The Buffered Response: a \<open>NextResponse\<close> as the record of its status, its headers and
  its body (\<open>None\<close> is the null body of \<open>new NextResponse(undefined, ...)\<close>). A status is
  a natural number; \<open>Response\<close> keeps it as an unsigned 16-bit value.
\<close>

record response =
  res_status :: nat
  res_headers :: headers
  res_body :: "string option"

text \<open>
  \<open>new NextResponse(body, {status, headers})\<close>, for a \<open>Headers\<close> object already built.
  The status is reduced to 16 bits and must lie in 200 to 599, or a \<open>RangeError\<close> is
  thrown; a body, even an empty string, with the status 204, 205 or 304 is a
  \<open>TypeError\<close>. A string body brings its content type when the headers name none.
\<close>

definition new_NextResponse :: "string option \<Rightarrow> nat \<Rightarrow> headers \<Rightarrow> platform_error + response" where
  "new_NextResponse body status h =
     (let s = status mod 65536 in
      if s < 200 \<or> 599 < s then Inl RangeError_status
      else if body \<noteq> None \<and> (s = 204 \<or> s = 205 \<or> s = 304) then Inl TypeError_body_status
      else Inr \<lparr> res_status = s,
                 res_headers =
                   (if body \<noteq> None \<and> headers_get h ''content-type'' = None
                    then headers_set ''content-type'' ''text/plain;charset=UTF-8'' h else h),
                 res_body = body \<rparr>)"

text \<open>\<open>NextResponse.json(value, {status})\<close>, for the statuses 200, 400, 404 and 500.\<close>

definition NextResponse_json :: "json \<Rightarrow> nat \<Rightarrow> response" where
  "NextResponse_json v status =
     \<lparr> res_status = status,
       res_headers = headers_set ''content-type'' ''application/json'' Map.empty,
       res_body = Some (JSON_stringify v) \<rparr>"

text \<open>
  \<open>await response.text()\<close>: a null body reads as the empty string, and a byte order mark
  at the start of the body is dropped.
\<close>

definition strip_BOM :: "string \<Rightarrow> string" where
  "strip_BOM s =
     (case s of
        a # b # c # rest \<Rightarrow>
          if a = CHR 0xEF \<and> b = CHR 0xBB \<and> c = CHR 0xBF then rest else s
      | _ \<Rightarrow> s)"

definition response_text :: "response \<Rightarrow> string" where
  "response_text r = (case res_body r of None \<Rightarrow> [] | Some s \<Rightarrow> strip_BOM s)"

definition setCorsHeaders :: "response \<Rightarrow> response" where
  "setCorsHeaders r =
     r\<lparr> res_headers :=
          headers_set ''Access-Control-Expose-Headers'' ''Mcp-Session-Id''
            (headers_set ''Access-Control-Allow-Headers''
                 ''Content-Type, Mcp-Session-Id, Authorization''
               (headers_set ''Access-Control-Allow-Methods'' ''GET, POST, DELETE, OPTIONS''
                  (headers_set ''Access-Control-Allow-Origin'' ''*'' (res_headers r)))) \<rparr>"

text \<open>
  \<open>buffer.toString("utf-8")\<close>, with a string kept as its UTF-8 bytes: the UTF-8 decoder of
  the Encoding standard. A well-formed sequence is kept; each ill-formed part is replaced
  by U+FFFD, the bytes \<open>EF BF BD\<close>. The state is the number of bytes still needed, the
  bounds for the next byte, and the bytes of the sequence read so far.
\<close>

definition replacement :: string where
  "replacement = [CHR 0xEF, CHR 0xBF, CHR 0xBD]"

definition utf8_lead :: "char \<Rightarrow> string \<times> (nat \<times> nat \<times> nat \<times> string)" where
  "utf8_lead b =
     (let n = (of_char b :: nat) in
      if n \<le> 0x7F then ([b], (0, 0x80, 0xBF, []))
      else if 0xC2 \<le> n \<and> n \<le> 0xDF then ([], (1, 0x80, 0xBF, [b]))
      else if 0xE0 \<le> n \<and> n \<le> 0xEF
        then ([], (2, if n = 0xE0 then 0xA0 else 0x80, if n = 0xED then 0x9F else 0xBF, [b]))
      else if 0xF0 \<le> n \<and> n \<le> 0xF4
        then ([], (3, if n = 0xF0 then 0x90 else 0x80, if n = 0xF4 then 0x8F else 0xBF, [b]))
      else (replacement, (0, 0x80, 0xBF, [])))"

fun utf8_decode :: "nat \<times> nat \<times> nat \<times> string \<Rightarrow> string \<Rightarrow> string" where
  "utf8_decode (needed, lo, hi, pending) [] = (if needed = 0 then [] else replacement)"
| "utf8_decode (needed, lo, hi, pending) (b # bs) =
     (if needed = 0 then fst (utf8_lead b) @ utf8_decode (snd (utf8_lead b)) bs
      else if lo \<le> (of_char b :: nat) \<and> (of_char b :: nat) \<le> hi then
        (if needed = 1 then pending @ [b] @ utf8_decode (0, 0x80, 0xBF, []) bs
         else utf8_decode (needed - 1, 0x80, 0xBF, pending @ [b]) bs)
      else replacement @ fst (utf8_lead b) @ utf8_decode (snd (utf8_lead b)) bs)"

definition toString_utf8 :: "string \<Rightarrow> string" where
  "toString_utf8 bs = utf8_decode (0, 0x80, 0xBF, []) bs"

section \<open>The Response Collector (createServerResponse)\<close>

text \<open>
  A chunk is a string or a \<open>Buffer\<close>; both carry their bytes (\<open>Buffer.from\<close> of a string is
  its UTF-8 encoding, and the body is the concatenated bytes read back as UTF-8). Only the
  empty string is falsy: an empty \<open>Buffer\<close> is an object.
\<close>

datatype chunk = Str string | Buf string

fun chunk_bytes :: "chunk \<Rightarrow> string" where
  "chunk_bytes (Str s) = s"
| "chunk_bytes (Buf b) = b"

fun chunk_truthy :: "chunk \<Rightarrow> bool" where
  "chunk_truthy (Str s) = (s \<noteq> [])"
| "chunk_truthy (Buf b) = True"

datatype header_value = Single string | Multi "string list"

type_synonym header_record = "(string \<times> header_value) list"

text \<open>
  The closure state of one collector: the variables \<open>statusCode\<close>, \<open>headers\<close>, \<open>chunks\<close>
  and \<open>headersSent\<close>, the properties \<open>statusCode\<close> and \<open>statusMessage\<close> of the
  \<open>response\<close> object, and the promise (\<open>None\<close> while it is pending).
\<close>

record collector =
  statusCode :: nat
  headers :: header_record
  chunks :: "string list"
  headersSent :: bool
  prop_statusCode :: nat
  prop_statusMessage :: string
  responsePromise :: "response option"

definition createServerResponse :: collector where
  "createServerResponse =
     \<lparr> statusCode = 200, headers = [], chunks = [], headersSent = False,
       prop_statusCode = 200, prop_statusMessage = ''OK'', responsePromise = None \<rparr>"

text \<open>\<open>headers[name] = value\<close>: an existing property keeps its place.\<close>

fun assign_header :: "string \<Rightarrow> header_value \<Rightarrow> header_record \<Rightarrow> header_record" where
  "assign_header k v [] = [(k, v)]"
| "assign_header k v ((k', v') # hs) =
     (if k = k' then (k, v) # hs else (k', v') # assign_header k v hs)"

definition Object_assign :: "header_record \<Rightarrow> header_record \<Rightarrow> header_record" where
  "Object_assign target source = fold (\<lambda>(k, v). assign_header k v) source target"

definition setHeader :: "string \<Rightarrow> header_value \<Rightarrow> collector \<Rightarrow> collector" where
  "setHeader name v c = c\<lparr> headers := assign_header name v (headers c) \<rparr>"

definition getHeader :: "string \<Rightarrow> collector \<Rightarrow> header_value option" where
  "getHeader name c = map_of (headers c) name"

definition hasHeader :: "string \<Rightarrow> collector \<Rightarrow> bool" where
  "hasHeader name c = (map_of (headers c) name \<noteq> None)"

definition removeHeader :: "string \<Rightarrow> collector \<Rightarrow> collector" where
  "removeHeader name c = c\<lparr> headers := filter (\<lambda>kv. fst kv \<noteq> name) (headers c) \<rparr>"

definition write_chunk :: "chunk \<Rightarrow> collector \<Rightarrow> collector" where
  "write_chunk ch c = c\<lparr> chunks := chunks c @ [chunk_bytes ch] \<rparr>"

text \<open>The \<open>[key, value]\<close> pairs \<open>end\<close> builds from the header record.\<close>

fun headerEntries :: "header_record \<Rightarrow> (string \<times> string) list" where
  "headerEntries [] = []"
| "headerEntries ((k, Single v) # hs) = (k, v) # headerEntries hs"
| "headerEntries ((k, Multi vs) # hs) = map (\<lambda>v. (k, v)) vs @ headerEntries hs"

text \<open>
  \<open>end(chunk?)\<close>. The chunk is pushed and \<open>headersSent\<close> is set; then the body, the
  \<open>Headers\<close> and the \<open>NextResponse\<close> are built, in this order. When a constructor throws,
  \<open>end\<close> throws to its caller before \<open>resolveResponse\<close> is reached and the promise
  stays as it was. A promise settles once: \<open>resolveResponse\<close> on a settled promise changes
  nothing.
\<close>

definition end_chunks :: "chunk option \<Rightarrow> collector \<Rightarrow> string list" where
  "end_chunks chunk c =
     (case chunk of
        None \<Rightarrow> chunks c
      | Some ch \<Rightarrow> if chunk_truthy ch then chunks c @ [chunk_bytes ch] else chunks c)"

definition end_nextResponse :: "chunk option \<Rightarrow> collector \<Rightarrow> platform_error + response" where
  "end_nextResponse chunk c =
     (let cs = end_chunks chunk c;
          body = (if length cs > 0 then Some (toString_utf8 (concat cs)) else None)
      in case new_Headers (headerEntries (headers c)) of
           Inl e \<Rightarrow> Inl e
         | Inr h \<Rightarrow> new_NextResponse body (statusCode c) h)"

definition end_response :: "chunk option \<Rightarrow> collector \<Rightarrow> collector" where
  "end_response chunk c =
     c\<lparr> chunks := end_chunks chunk c, headersSent := True,
        responsePromise :=
          (case end_nextResponse chunk c of
             Inl e \<Rightarrow> responsePromise c
           | Inr nextResponse \<Rightarrow>
               (case responsePromise c of None \<Rightarrow> Some nextResponse | Some r \<Rightarrow> Some r)) \<rparr>"

text \<open>The second argument of \<open>writeHead\<close>: absent, a status message, or headers.\<close>

datatype head_arg = NoArg | Message string | HeadersArg header_record

definition writeHead :: "nat \<Rightarrow> head_arg \<Rightarrow> header_record option \<Rightarrow> collector \<Rightarrow> collector" where
  "writeHead code messageOrHeaders responseHeaders c =
     (let c1 = c\<lparr> statusCode := code, prop_statusCode := code \<rparr>;
          c2 = (case messageOrHeaders of
                  Message m \<Rightarrow>
                    (case responseHeaders of
                       Some hs \<Rightarrow> c1\<lparr> prop_statusMessage := m, headers := Object_assign (headers c1) hs \<rparr>
                     | None \<Rightarrow> c1\<lparr> prop_statusMessage := m \<rparr>)
                | HeadersArg hs \<Rightarrow> c1\<lparr> headers := Object_assign (headers c1) hs \<rparr>
                | NoArg \<Rightarrow> c1)
      in c2\<lparr> headersSent := True \<rparr>)"

text \<open>
  What a holder of the \<open>response\<close> object can do to it: call a method, or assign its
  \<open>statusCode\<close> property. The callbacks that \<open>write\<close> and \<open>end\<close> accept are the
  caller's own code; what they do to the object is further operations of this list.
\<close>

datatype collector_op =
    SetHeader string header_value
  | RemoveHeader string
  | Write chunk
  | End "chunk option"
  | WriteHead nat head_arg "header_record option"
  | AssignStatusCode nat

fun apply_op :: "collector_op \<Rightarrow> collector \<Rightarrow> collector" where
  "apply_op (SetHeader n v) c = setHeader n v c"
| "apply_op (RemoveHeader n) c = removeHeader n c"
| "apply_op (Write ch) c = write_chunk ch c"
| "apply_op (End ch) c = end_response ch c"
| "apply_op (WriteHead code m hs) c = writeHead code m hs c"
| "apply_op (AssignStatusCode n) c = c\<lparr> prop_statusCode := n \<rparr>"

definition run_ops :: "collector_op list \<Rightarrow> collector \<Rightarrow> collector" where
  "run_ops ops c = fold apply_op ops c"

text \<open>
  Readings of a list of operations, used to state what the collector resolves with: the
  bytes pushed by \<open>write\<close> and by \<open>end\<close>, in order; the code of the most recent
  \<open>writeHead\<close> (or a default when there is none); and whether every header an operation
  passes is one that \<open>new Headers\<close> accepts.
\<close>

fun pushed :: "collector_op list \<Rightarrow> string list" where
  "pushed [] = []"
| "pushed (Write ch # ops) = chunk_bytes ch # pushed ops"
| "pushed (End (Some ch) # ops) =
     (if chunk_truthy ch then chunk_bytes ch # pushed ops else pushed ops)"
| "pushed (op # ops) = pushed ops"

fun last_writeHead_code :: "nat \<Rightarrow> collector_op list \<Rightarrow> nat" where
  "last_writeHead_code d [] = d"
| "last_writeHead_code d (WriteHead code m hs # ops) = last_writeHead_code code ops"
| "last_writeHead_code d (op # ops) = last_writeHead_code d ops"

fun header_ok :: "string \<times> header_value \<Rightarrow> bool" where
  "header_ok (k, Single v) = (valid_header_name k \<and> valid_header_value v)"
| "header_ok (k, Multi vs) = (valid_header_name k \<and> list_all valid_header_value vs)"

fun headers_of_op :: "collector_op \<Rightarrow> header_record" where
  "headers_of_op (SetHeader n v) = [(n, v)]"
| "headers_of_op (WriteHead code (Message m) (Some hs)) = hs"
| "headers_of_op (WriteHead code (HeadersArg hs) r) = hs"
| "headers_of_op op = []"

definition headers_accepted :: "collector_op list \<Rightarrow> bool" where
  "headers_accepted ops = list_all (\<lambda>op. list_all header_ok (headers_of_op op)) ops"

section \<open>The Request Adapter (createIncomingMessage)\<close>

text \<open>
  A value that was thrown: an \<open>Error\<close> instance with its message and stack, or any other
  value, kept as what \<open>String(error)\<close> gives.
\<close>

datatype thrown = ErrorInstance string string | OtherThrown string

fun error_text :: "thrown \<Rightarrow> string" where
  "error_text (ErrorInstance message stack) = message"
| "error_text (OtherThrown s) = s"

text \<open>
  The parsed request: \<open>req_headers\<close> is the header list as \<open>req.headers.forEach\<close>
  iterates it (lower-cased names, one entry per name), and \<open>req_json\<close> is what
  \<open>await req.json()\<close> gives: the decoded body, or the error it rejects with.
\<close>

record request =
  req_method :: string
  req_url :: string
  req_headers :: "(string \<times> string) list"
  req_json :: "thrown + json"

text \<open>
  Readable streams live in a store: a reference maps to the chunks that are still to be
  read. Reading takes them all and leaves the stream ended.
\<close>

record stream_heap =
  stream_chunks :: "nat \<rightharpoonup> string list"
  next_stream :: nat

definition empty_heap :: stream_heap where
  "empty_heap = \<lparr> stream_chunks = Map.empty, next_stream = 0 \<rparr>"

definition Readable_from :: "string list \<Rightarrow> stream_heap \<Rightarrow> nat \<times> stream_heap" where
  "Readable_from cs h =
     (next_stream h,
      h\<lparr> stream_chunks := (stream_chunks h)(next_stream h \<mapsto> cs),
         next_stream := Suc (next_stream h) \<rparr>)"

definition stream_content :: "stream_heap \<Rightarrow> nat \<Rightarrow> string list" where
  "stream_content h r = (case stream_chunks h r of None \<Rightarrow> [] | Some cs \<Rightarrow> cs)"

text \<open>\<open>for await (const chunk of stream)\<close>: the chunks read, and the store afterwards.\<close>

definition read_stream :: "nat \<Rightarrow> stream_heap \<Rightarrow> string list \<times> stream_heap" where
  "read_stream r h =
     (stream_content h r,
      (case stream_chunks h r of
         None \<Rightarrow> h
       | Some cs \<Rightarrow> h\<lparr> stream_chunks := (stream_chunks h)(r \<mapsto> []) \<rparr>))"

record incoming_message =
  im_stream :: nat
  im_headers :: header_record
  im_method :: string
  im_url :: string
  im_httpVersion :: string
  im_httpVersionMajor :: nat
  im_httpVersionMinor :: nat
  im_aborted :: bool
  im_complete :: bool
  im_readable :: bool
  im_remoteAddress :: string
  im_remotePort :: nat
  im_encrypted :: bool

definition bodyString :: "json option \<Rightarrow> string" where
  "bodyString body =
     (case body of
        None \<Rightarrow> []
      | Some b \<Rightarrow> if truthy b then JSON_stringify b else [])"

definition createIncomingMessage ::
  "request \<Rightarrow> json option \<Rightarrow> stream_heap \<Rightarrow> incoming_message \<times> stream_heap" where
  "createIncomingMessage req body h =
     (let hdrs = fold (\<lambda>(key, v). assign_header key (Single v)) (req_headers req) [];
          (r, h') = Readable_from [bodyString body] h
      in (\<lparr> im_stream = r, im_headers = hdrs, im_method = req_method req, im_url = req_url req,
            im_httpVersion = ''1.1'', im_httpVersionMajor = 1, im_httpVersionMinor = 1,
            im_aborted = False, im_complete = True, im_readable = True,
            im_remoteAddress = ''127.0.0.1'', im_remotePort = 0, im_encrypted = False \<rparr>,
          h'))"

section \<open>The Session Registry and the Request Router (route.ts)\<close>

text \<open>
  Transport handles are numbered as they are constructed. The server's state is the
  registry \<open>transports\<close>, the \<open>sessionId\<close> property of every transport, and the number of
  the next transport.
\<close>

record server =
  transports :: "string \<rightharpoonup> nat"
  transport_sessionId :: "nat \<rightharpoonup> string"
  next_transport :: nat

text \<open>
  The protocol engine is outside the repository. What it does during one
  \<open>handleRequest\<close> is the list of its calls on what the router gave it: it sets the
  transport's \<open>sessionId\<close>, calls \<open>onsessioninitialized\<close>, \<open>onsessionclosed\<close> or
  \<open>onclose\<close>, or uses the response object; then it returns or throws.
\<close>

datatype engine_action =
    AssignSessionId string
  | Call_onsessioninitialized string
  | Call_onsessionclosed string
  | Call_onclose
  | Response collector_op

datatype outcome = Returned | Threw thrown

text \<open>
  What the router takes from its surroundings: the environment variable \<open>NODE_ENV\<close>, the
  SDK's predicate \<open>isInitializeRequest\<close>, the value \<open>randomUUID()\<close> gives the session id
  generator in this call, the error raised by reading a property of \<open>null\<close>, the error
  values the platform's constructors throw, the outcome of \<open>server.connect\<close> (\<open>None\<close> when
  it resolves), and the engine: from the transport, the generator's value, the request
  object and the chunks of its stream to what the engine does.
\<close>

record runtime =
  NODE_ENV :: "string option"
  isInitializeRequest :: "json \<Rightarrow> bool"
  randomUUID :: string
  TypeError_null :: thrown
  platform_thrown :: "platform_error \<Rightarrow> thrown"
  connect :: "nat \<Rightarrow> thrown option"
  handleRequest ::
    "nat \<Rightarrow> string \<Rightarrow> incoming_message \<Rightarrow> string list \<Rightarrow> engine_action list \<times> outcome"

text \<open>The callbacks the router wires to transport \<open>t\<close>, and the response object.\<close>

fun apply_engine_action ::
  "nat \<Rightarrow> engine_action \<Rightarrow> server \<times> collector \<Rightarrow> server \<times> collector" where
  "apply_engine_action t (AssignSessionId sid) (st, c) =
     (st\<lparr> transport_sessionId := (transport_sessionId st)(t \<mapsto> sid) \<rparr>, c)"
| "apply_engine_action t (Call_onsessioninitialized sid) (st, c) =
     (st\<lparr> transports := (transports st)(sid \<mapsto> t) \<rparr>, c)"
| "apply_engine_action t (Call_onsessionclosed sid) (st, c) =
     (st\<lparr> transports := (transports st)(sid := None) \<rparr>, c)"
| "apply_engine_action t Call_onclose (st, c) =
     (case transport_sessionId st t of
        None \<Rightarrow> (st, c)
      | Some sid \<Rightarrow>
          if sid \<noteq> [] then (st\<lparr> transports := (transports st)(sid := None) \<rparr>, c)
          else (st, c))"
| "apply_engine_action t (Response op) (st, c) = (st, apply_op op c)"

text \<open>The \<open>catch\<close> block of \<open>POST\<close>.\<close>

definition POST_catch :: "runtime \<Rightarrow> thrown \<Rightarrow> response" where
  "POST_catch env error =
     setCorsHeaders
       (NextResponse_json
          (JObj [(''jsonrpc'', JStr ''2.0''),
                 (''error'',
                    JObj ([(''code'', JNum (- 32603)),
                           (''message'', JStr ''Internal server error'')] @
                          (if NODE_ENV env = Some ''development''
                           then [(''data'', JObj [(''error'', JStr (error_text error))])]
                           else []))),
                 (''id'', JNull)])
          500)"

text \<open>\<open>body.id || null\<close>.\<close>

definition id_or_null :: "json \<Rightarrow> json" where
  "id_or_null body =
     (case json_field body ''id'' of
        None \<Rightarrow> JNull
      | Some v \<Rightarrow> if truthy v then v else JNull)"

definition invalid_session_response :: "json \<Rightarrow> response" where
  "invalid_session_response body =
     setCorsHeaders
       (NextResponse_json
          (JObj [(''jsonrpc'', JStr ''2.0''),
                 (''error'',
                    JObj [(''code'', JNum (- 32000)),
                          (''message'',
                             JStr ''Bad Request: No valid session ID provided or session not found''),
                          (''data'',
                             JObj [(''hint'', JStr ''Please send an initialize request first'')])]),
                 (''id'', id_or_null body)])
          400)"

text \<open>
  \<open>await transport.handleRequest(message, response)\<close> with a fresh collector, where
  \<open>run\<close> is what the engine does in that call; then \<open>await getResponse()\<close> and the
  final response, built anew from the text, the status and the headers of the collected
  one. That construction throws for a status that allows no body, and the \<open>catch\<close> block
  answers. The result is \<open>None\<close> when the engine returns and the promise is pending:
  the handler does not return.
\<close>

definition delegate ::
  "runtime \<Rightarrow> nat \<Rightarrow> engine_action list \<times> outcome \<Rightarrow> server \<Rightarrow> server \<times> response option" where
  "delegate env t run st =
     (let (acts, out) = run;
          (st', c) = fold (apply_engine_action t) acts (st, createServerResponse)
      in case out of
           Threw e \<Rightarrow> (st', Some (POST_catch env e))
         | Returned \<Rightarrow>
             (case responsePromise c of
                None \<Rightarrow> (st', None)
              | Some nextResponse \<Rightarrow>
                  (case new_NextResponse (Some (response_text nextResponse))
                          (res_status nextResponse) (res_headers nextResponse) of
                     Inl err \<Rightarrow> (st', Some (POST_catch env (platform_thrown env err)))
                   | Inr finalResponse \<Rightarrow> (st', Some (setCorsHeaders finalResponse)))))"

text \<open>\<open>if (sessionId && transports.has(sessionId)) transports.delete(sessionId)\<close>.\<close>

definition discard_existing :: "string option \<Rightarrow> server \<Rightarrow> server" where
  "discard_existing sessionId st =
     (case sessionId of
        None \<Rightarrow> st
      | Some sid \<Rightarrow>
          if sid \<noteq> [] \<and> transports st sid \<noteq> None
          then st\<lparr> transports := (transports st)(sid := None) \<rparr> else st)"

definition new_transport :: "server \<Rightarrow> nat \<times> server" where
  "new_transport st =
     (next_transport st,
      st\<lparr> transport_sessionId := (transport_sessionId st)(next_transport st := None),
          next_transport := Suc (next_transport st) \<rparr>)"

text \<open>
  The request object the initialising branch hands to the engine, with the chunks of its
  stream: the first object is read once as a test, so a second one is built.
\<close>

definition engine_input_initialize :: "request \<Rightarrow> json \<Rightarrow> incoming_message \<times> string list" where
  "engine_input_initialize req body =
     (let (incomingMessage, h1) = createIncomingMessage req (Some body) empty_heap;
          (readData, h2) = read_stream (im_stream incomingMessage) h1;
          (incomingMessage2, h3) = createIncomingMessage req (Some body) h2
      in (incomingMessage2, stream_content h3 (im_stream incomingMessage2)))"

definition engine_input_continue :: "request \<Rightarrow> json \<Rightarrow> incoming_message \<times> string list" where
  "engine_input_continue req body =
     (let (incomingMessage, h1) = createIncomingMessage req (Some body) empty_heap
      in (incomingMessage, stream_content h1 (im_stream incomingMessage)))"

text \<open>
  The initialising branch from the construction of the transport on: connect, build the
  request object, delegate.
\<close>

definition POST_initialize ::
  "runtime \<Rightarrow> request \<Rightarrow> json \<Rightarrow> server \<Rightarrow> server \<times> response option" where
  "POST_initialize env req body st =
     (let (transport, st1) = new_transport st in
      case connect env transport of
        Some e \<Rightarrow> (st1, Some (POST_catch env e))
      | None \<Rightarrow>
          (let (incomingMessage2, cs) = engine_input_initialize req body
           in delegate env transport
                (handleRequest env transport (randomUUID env) incomingMessage2 cs) st1))"

definition POST_continue ::
  "runtime \<Rightarrow> request \<Rightarrow> json \<Rightarrow> nat \<Rightarrow> server \<Rightarrow> server \<times> response option" where
  "POST_continue env req body transport st =
     (let (incomingMessage, cs) = engine_input_continue req body
      in delegate env transport
           (handleRequest env transport (randomUUID env) incomingMessage cs) st)"

text \<open>\<open>sessionId && transports.has(sessionId)\<close>, then \<open>transports.get(sessionId)\<close>.\<close>

definition lookup_session :: "string option \<Rightarrow> server \<Rightarrow> nat option" where
  "lookup_session sessionId st =
     (case sessionId of
        None \<Rightarrow> None
      | Some sid \<Rightarrow> if sid \<noteq> [] then transports st sid else None)"

text \<open>
  \<open>POST\<close>. A body that decodes to \<open>null\<close> raises at the first \<open>body.method\<close>, in the
  request log. The check \<open>if (!transport)\<close> after the lookup cannot fire, since \<open>get\<close>
  follows a successful \<open>has\<close> and only transports are stored; it has no branch here.
\<close>

definition POST :: "runtime \<Rightarrow> server \<Rightarrow> request \<Rightarrow> server \<times> response option" where
  "POST env st req =
     (let sessionId = map_of (req_headers req) ''mcp-session-id'' in
      case req_json req of
        Inl e \<Rightarrow> (st, Some (POST_catch env e))
      | Inr body \<Rightarrow>
          if body = JNull then (st, Some (POST_catch env (TypeError_null env)))
          else if isInitializeRequest env body
            then POST_initialize env req body (discard_existing sessionId st)
          else (case lookup_session sessionId st of
                  Some transport \<Rightarrow> POST_continue env req body transport st
                | None \<Rightarrow> (st, Some (invalid_session_response body))))"

definition DELETE :: "server \<Rightarrow> request \<Rightarrow> server \<times> response" where
  "DELETE st req =
     (case map_of (req_headers req) ''mcp-session-id'' of
        None \<Rightarrow>
          (st, setCorsHeaders
                 (NextResponse_json
                    (JObj [(''status'', JStr ''error''),
                           (''message'', JStr ''No session ID provided'')]) 400))
      | Some sessionId \<Rightarrow>
          if sessionId = [] then
            (st, setCorsHeaders
                   (NextResponse_json
                      (JObj [(''status'', JStr ''error''),
                             (''message'', JStr ''No session ID provided'')]) 400))
          else if transports st sessionId = None then
            (st, setCorsHeaders
                   (NextResponse_json
                      (JObj [(''status'', JStr ''error''),
                             (''message'', JStr ''Session not found'')]) 404))
          else
            (st\<lparr> transports := (transports st)(sessionId := None) \<rparr>,
             setCorsHeaders
               (NextResponse_json
                  (JObj [(''status'', JStr ''ok''),
                         (''message'', JStr ''Session deleted successfully''),
                         (''sessionId'', JStr sessionId)]) 200)))"

text \<open>Two readings of what the engine does: a use of the response object, a registration.\<close>

fun is_Response :: "engine_action \<Rightarrow> bool" where
  "is_Response (Response op) = True"
| "is_Response a = False"

fun is_onsessioninitialized :: "engine_action \<Rightarrow> bool" where
  "is_onsessioninitialized (Call_onsessioninitialized sid) = True"
| "is_onsessioninitialized a = False"

section \<open>The business operation (countJapaneseChars.ts)\<close>

text \<open>
  A JavaScript string is a sequence of UTF-16 code units. \<open>Array.from(text)\<close> iterates its
  code points: a high surrogate followed by a low surrogate is one code point, every other
  code unit is one by itself.
\<close>

fun code_points :: "16 word list \<Rightarrow> nat list" where
  "code_points [] = []"
| "code_points [u] = [unat u]"
| "code_points (u # v # us) =
     (if 0xD800 \<le> u \<and> u \<le> 0xDBFF \<and> 0xDC00 \<le> v \<and> v \<le> 0xDFFF
      then (0x10000 + (unat u - 0xD800) * 0x400 + (unat v - 0xDC00)) # code_points us
      else unat u # code_points (v # us))"

text \<open>
  \<open>Intl.Segmenter\<close> with granularity \<open>grapheme\<close> is the platform's: it cuts a text into
  extended grapheme clusters by the boundary rules GB3 to GB999 of Unicode Standard Annex
  29. The rules read three properties of a code point from the Unicode Character Database,
  which is a parameter here.
\<close>

datatype gcb =
    GCB_Other | GCB_CR | GCB_LF | GCB_Control | GCB_Extend | GCB_ZWJ
  | GCB_Regional_Indicator | GCB_Prepend | GCB_SpacingMark
  | GCB_L | GCB_V | GCB_T | GCB_LV | GCB_LVT

datatype incb = InCB_None | InCB_Consonant | InCB_Extend | InCB_Linker

record ucd =
  Grapheme_Cluster_Break :: "nat \<Rightarrow> gcb"
  Extended_Pictographic :: "nat \<Rightarrow> bool"
  Indic_Conjunct_Break :: "nat \<Rightarrow> incb"

text \<open>
  What the rules remember of the text before a position: the class of the code point just
  before it; whether an odd number of regional indicators ends there (GB12, GB13); how far
  an emoji sequence has got, 1 after \<open>ExtPict Extend*\<close> and 2 after a following ZWJ (GB11);
  how far a conjunct has got, 1 after a consonant and 2 once a linker has followed (GB9c).
\<close>

record seg_state =
  prev_gcb :: gcb
  ri_odd :: bool
  emoji_seq :: nat
  conjunct_seq :: nat

definition start_of_text :: seg_state where
  "start_of_text = \<lparr> prev_gcb = GCB_Other, ri_odd = False, emoji_seq = 0, conjunct_seq = 0 \<rparr>"

definition advance :: "ucd \<Rightarrow> seg_state \<Rightarrow> nat \<Rightarrow> seg_state" where
  "advance U s c =
     (let k = Grapheme_Cluster_Break U c; i = Indic_Conjunct_Break U c in
      \<lparr> prev_gcb = k,
        ri_odd = (k = GCB_Regional_Indicator \<and> \<not> ri_odd s),
        emoji_seq =
          (if Extended_Pictographic U c then 1
           else if emoji_seq s = 1 \<and> k = GCB_Extend then 1
           else if emoji_seq s = 1 \<and> k = GCB_ZWJ then 2
           else 0),
        conjunct_seq =
          (if i = InCB_Consonant then 1
           else if conjunct_seq s \<noteq> 0 \<and> i = InCB_Extend then conjunct_seq s
           else if conjunct_seq s \<noteq> 0 \<and> i = InCB_Linker then 2
           else 0) \<rparr>)"

text \<open>Whether there is no boundary between the text read so far and the code point \<open>c\<close>.\<close>

definition no_break :: "ucd \<Rightarrow> seg_state \<Rightarrow> nat \<Rightarrow> bool" where
  "no_break U s c =
     (let p = prev_gcb s; k = Grapheme_Cluster_Break U c in
      if p = GCB_CR \<and> k = GCB_LF then True
      else if p = GCB_Control \<or> p = GCB_CR \<or> p = GCB_LF then False
      else if k = GCB_Control \<or> k = GCB_CR \<or> k = GCB_LF then False
      else if p = GCB_L \<and> (k = GCB_L \<or> k = GCB_V \<or> k = GCB_LV \<or> k = GCB_LVT) then True
      else if (p = GCB_LV \<or> p = GCB_V) \<and> (k = GCB_V \<or> k = GCB_T) then True
      else if (p = GCB_LVT \<or> p = GCB_T) \<and> k = GCB_T then True
      else if k = GCB_Extend \<or> k = GCB_ZWJ then True
      else if k = GCB_SpacingMark then True
      else if p = GCB_Prepend then True
      else if conjunct_seq s = 2 \<and> Indic_Conjunct_Break U c = InCB_Consonant then True
      else if emoji_seq s = 2 \<and> Extended_Pictographic U c then True
      else if ri_odd s \<and> k = GCB_Regional_Indicator then True
      else False)"

fun clusters :: "ucd \<Rightarrow> seg_state \<Rightarrow> nat list \<Rightarrow> nat list \<Rightarrow> nat list list" where
  "clusters U s cur [] = [cur]"
| "clusters U s cur (c # cs) =
     (if no_break U s c then clusters U (advance U s c) (cur @ [c]) cs
      else cur # clusters U (advance U s c) [c] cs)"

definition segment :: "ucd \<Rightarrow> nat list \<Rightarrow> nat list list" where
  "segment U cps =
     (case cps of
        [] \<Rightarrow> []
      | c # cs \<Rightarrow> clusters U (advance U start_of_text c) [c] cs)"

text \<open>
  \<open>countJapaneseGraphemes\<close>: the first argument is \<open>globalThis.Intl?.Segmenter\<close>, \<open>None\<close>
  where the platform has none.
\<close>

definition countJapaneseGraphemes :: "ucd option \<Rightarrow> 16 word list \<Rightarrow> nat" where
  "countJapaneseGraphemes Intl_Segmenter text =
     (case Intl_Segmenter of
        None \<Rightarrow> length (code_points text)
      | Some U \<Rightarrow> length (segment U (code_points text)))"

section \<open>Readings and example inputs\<close>

text \<open>The operations on the response object among what the engine does, in order.\<close>

fun response_ops :: "engine_action list \<Rightarrow> collector_op list" where
  "response_ops [] = []"
| "response_ops (Response op # acts) = op # response_ops acts"
| "response_ops (a # acts) = response_ops acts"

text \<open>Whether every \<open>onsessioninitialized\<close> among what the engine does reports the id \<open>u\<close>.\<close>

fun registers_only :: "string \<Rightarrow> engine_action list \<Rightarrow> bool" where
  "registers_only u [] = True"
| "registers_only u (Call_onsessioninitialized sid # acts) = (sid = u \<and> registers_only u acts)"
| "registers_only u (a # acts) = registers_only u acts"

text \<open>The characters of what \<open>randomUUID\<close> returns: lower-case hexadecimal digits and hyphens.\<close>

definition uuid_char :: "char \<Rightarrow> bool" where
  "uuid_char c = (c \<in> set ''0123456789abcdef-'')"

text \<open>
  The states the server can be in, with the values the generator has given so far: it
  starts with no session; a \<open>POST\<close> is served with a generator that gives a value it has
  not given before and an engine that reports to \<open>onsessioninitialized\<close> only the value
  the generator gave it; a \<open>DELETE\<close> is served.
\<close>

definition initial_server :: server where
  "initial_server =
     \<lparr> transports = Map.empty, transport_sessionId = Map.empty, next_transport = 0 \<rparr>"

inductive reachable :: "string list \<Rightarrow> server \<Rightarrow> bool" where
  start: "reachable [] initial_server"
| post: "reachable ids st \<Longrightarrow> randomUUID env \<notin> set ids \<Longrightarrow>
         (\<And>t im cs. registers_only (randomUUID env) (fst (handleRequest env t (randomUUID env) im cs))) \<Longrightarrow>
         reachable (randomUUID env # ids) (fst (POST env st req))"
| delete: "reachable ids st \<Longrightarrow> reachable ids (fst (DELETE st req))"

text \<open>
  What holds of every state the server can be in: an id of the registry is one the
  generator gave, and its transport is one that was constructed.
\<close>

definition registry_inv :: "string list \<Rightarrow> server \<Rightarrow> bool" where
  "registry_inv ids st =
     (\<forall>sid t. transports st sid = Some t \<longrightarrow> sid \<in> set ids \<and> t < next_transport st)"

text \<open>
  A server with the session \<open>s1\<close> on transport 0. A stand-in for the SDK's
  \<open>isInitializeRequest\<close>: a JSON-RPC request with an id, the method \<open>initialize\<close>, and
  parameters that hold a protocol version, capabilities and the client's name and version.
  A runtime in production mode whose engine answers as the SDK answers an \<open>initialize\<close>
  request in JSON response mode: it takes the generated id, reports it through
  \<open>onsessioninitialized\<close>, writes the head with the id under the session header, and ends
  the response. A second runtime whose generator gives another id, and a third whose
  engine throws after it has started.
\<close>

definition one_session :: server where
  "one_session =
     \<lparr> transports = Map.empty(''s1'' \<mapsto> 0), transport_sessionId = Map.empty(0 \<mapsto> ''s1''),
       next_transport = 1 \<rparr>"

fun is_JStr :: "json option \<Rightarrow> bool" where
  "is_JStr (Some (JStr s)) = True"
| "is_JStr v = False"

fun is_JObj :: "json option \<Rightarrow> bool" where
  "is_JObj (Some (JObj kvs)) = True"
| "is_JObj v = False"

fun is_request_id :: "json option \<Rightarrow> bool" where
  "is_request_id (Some (JStr s)) = True"
| "is_request_id (Some (JNum n)) = True"
| "is_request_id v = False"

definition example_isInitializeRequest :: "json \<Rightarrow> bool" where
  "example_isInitializeRequest b =
     (json_field b ''jsonrpc'' = Some (JStr ''2.0'') \<and> is_request_id (json_field b ''id'') \<and>
      json_field b ''method'' = Some (JStr ''initialize'') \<and>
      (case json_field b ''params'' of
         None \<Rightarrow> False
       | Some p \<Rightarrow>
           is_JStr (json_field p ''protocolVersion'') \<and> is_JObj (json_field p ''capabilities'') \<and>
           (case json_field p ''clientInfo'' of
              None \<Rightarrow> False
            | Some ci \<Rightarrow> is_JStr (json_field ci ''name'') \<and> is_JStr (json_field ci ''version''))))"

definition example_runtime :: runtime where
  "example_runtime =
     \<lparr> NODE_ENV = Some ''production'',
       isInitializeRequest = example_isInitializeRequest,
       randomUUID = ''550e8400-e29b-41d4-a716-446655440000'',
       TypeError_null = ErrorInstance ''Cannot read properties of null'' ''TypeError'',
       platform_thrown = (\<lambda>e. ErrorInstance ''Invalid response'' ''TypeError''),
       connect = (\<lambda>t. None),
       handleRequest = (\<lambda>t sid im cs.
          ([AssignSessionId sid, Call_onsessioninitialized sid,
            Response (WriteHead 200
               (HeadersArg [(''Content-Type'', Single ''application/json''),
                            (''mcp-session-id'', Single sid)]) None),
            Response (End (Some (Str ''{}'')))], Returned)) \<rparr>"

definition second_runtime :: runtime where
  "second_runtime = example_runtime\<lparr> randomUUID := ''6ba7b810-9dad-41d1-80b4-00c04fd430c8'' \<rparr>"

definition failing_runtime :: runtime where
  "failing_runtime =
     example_runtime\<lparr> handleRequest := (\<lambda>t sid im cs.
        ([AssignSessionId sid, Response (Write (Str ''partial''))],
         Threw (ErrorInstance ''tool exploded'' ''Error: tool exploded at handler''))) \<rparr>"

text \<open>
  The server after the first runtime has served a first initialize request, and a runtime
  with the second generator whose \<open>connect\<close> fails.
\<close>

definition first_session :: server where
  "first_session =
     \<lparr> transports = Map.empty(''550e8400-e29b-41d4-a716-446655440000'' \<mapsto> 0),
       transport_sessionId = Map.empty(0 \<mapsto> ''550e8400-e29b-41d4-a716-446655440000''),
       next_transport = 1 \<rparr>"

definition refusing_runtime :: runtime where
  "refusing_runtime =
     second_runtime\<lparr> connect := (\<lambda>t. Some (ErrorInstance ''Already connected''
                                          ''Error: Already connected'')) \<rparr>"

definition example_request :: "(string \<times> string) list \<Rightarrow> json \<Rightarrow> request" where
  "example_request hdrs body =
     \<lparr> req_method = ''POST'', req_url = ''http://localhost:3000/api/mcp'',
       req_headers = hdrs, req_json = Inr body \<rparr>"

definition initialize_body :: json where
  "initialize_body =
     JObj [(''jsonrpc'', JStr ''2.0''), (''id'', JNum 1), (''method'', JStr ''initialize''),
           (''params'',
              JObj [(''protocolVersion'', JStr ''2025-03-26''), (''capabilities'', JObj []),
                    (''clientInfo'',
                       JObj [(''name'', JStr ''example-client''), (''version'', JStr ''1.0.0'')])])]"

definition list_body :: json where
  "list_body =
     JObj [(''jsonrpc'', JStr ''2.0''), (''id'', JNum 2), (''method'', JStr ''tools/list'')]"

text \<open>
  The five texts of the test cases, as UTF-16: five hiragana; the same followed by the
  waving hand U+1F44B; the flag of Japan, the regional indicators U+1F1EF and U+1F1F5; the
  family of four, U+1F468, U+1F469, U+1F467 and U+1F466 joined by U+200D; and the
  three-character word that starts with U+20BB7, a surrogate pair.
\<close>

definition text_konnichiwa :: "16 word list" where
  "text_konnichiwa = [0x3053, 0x3093, 0x306B, 0x3061, 0x306F]"

definition text_konnichiwa_wave :: "16 word list" where
  "text_konnichiwa_wave = [0x3053, 0x3093, 0x306B, 0x3061, 0x306F, 0xD83D, 0xDC4B]"

definition text_flag :: "16 word list" where
  "text_flag = [0xD83C, 0xDDEF, 0xD83C, 0xDDF5]"

definition text_family :: "16 word list" where
  "text_family =
     [0xD83D, 0xDC68, 0x200D, 0xD83D, 0xDC69, 0x200D, 0xD83D, 0xDC67, 0x200D, 0xD83D, 0xDC66]"

definition text_yoshinoya :: "16 word list" where
  "text_yoshinoya = [0xD842, 0xDFB7, 0x91CE, 0x5BB6]"

text \<open>
  What the Unicode Character Database says of the code points of these texts: the kana,
  the ideographs and the emoji are of class Other, the four people are
  Extended_Pictographic, U+200D is the zero width joiner and is not pictographic, the two
  letters of the flag are regional indicators, and none of them is an Indic consonant.
\<close>

definition unicode_facts :: "ucd \<Rightarrow> bool" where
  "unicode_facts U =
     (list_all (\<lambda>c. Grapheme_Cluster_Break U c = GCB_Other)
        [0x3053, 0x3093, 0x306B, 0x3061, 0x306F, 0x20BB7, 0x91CE, 0x5BB6,
         0x1F44B, 0x1F468, 0x1F469, 0x1F467, 0x1F466] \<and>
      list_all (Extended_Pictographic U) [0x1F468, 0x1F469, 0x1F467, 0x1F466] \<and>
      Grapheme_Cluster_Break U 0x200D = GCB_ZWJ \<and> \<not> Extended_Pictographic U 0x200D \<and>
      list_all (\<lambda>c. Grapheme_Cluster_Break U c = GCB_Regional_Indicator) [0x1F1EF, 0x1F1F5] \<and>
      list_all (\<lambda>c. Indic_Conjunct_Break U c \<noteq> InCB_Consonant)
        [0x3053, 0x3093, 0x306B, 0x3061, 0x306F, 0x20BB7, 0x91CE, 0x5BB6,
         0x1F44B, 0x1F468, 0x1F469, 0x1F467, 0x1F466, 0x200D, 0x1F1EF, 0x1F1F5])"

text \<open>A table that agrees with the database on these code points.\<close>

definition ucd_fragment :: ucd where
  "ucd_fragment =
     \<lparr> Grapheme_Cluster_Break =
         (\<lambda>c. if c = 0x200D then GCB_ZWJ
              else if 0x1F1E6 \<le> c \<and> c \<le> 0x1F1FF then GCB_Regional_Indicator
              else if c = 0x0D then GCB_CR
              else if c = 0x0A then GCB_LF
              else if c < 0x20 then GCB_Control
              else if c = 0x3099 \<or> c = 0x309A \<or> (0xFE00 \<le> c \<and> c \<le> 0xFE0F) then GCB_Extend
              else GCB_Other),
       Extended_Pictographic = (\<lambda>c. c = 0x1F44B \<or> (0x1F466 \<le> c \<and> c \<le> 0x1F469)),
       Indic_Conjunct_Break = (\<lambda>c. if c = 0x200D then InCB_Extend else InCB_None) \<rparr>"

section \<open>The Response Collector: what it resolves with\<close>

lemma run_ops_Nil [simp]: "run_ops [] c = c"
  by (simp add: run_ops_def)

lemma run_ops_Cons [simp]: "run_ops (op # ops) c = run_ops ops (apply_op op c)"
  by (simp add: run_ops_def)

lemma run_ops_append [simp]: "run_ops (xs @ ys) c = run_ops ys (run_ops xs c)"
  by (simp add: run_ops_def)

text \<open>A settled promise stays as it is, whatever is called afterwards.\<close>

lemma apply_op_settled:
  "responsePromise c = Some r \<Longrightarrow> responsePromise (apply_op op c) = Some r"
  by (cases op)
     (simp_all add: setHeader_def removeHeader_def write_chunk_def end_response_def
        writeHead_def Let_def split: head_arg.splits option.splits sum.splits)

lemma run_ops_settled:
  "responsePromise c = Some r \<Longrightarrow> responsePromise (run_ops ops c) = Some r"
  by (induction ops arbitrary: c) (simp_all add: apply_op_settled)

text \<open>Chunks pile up and \<open>writeHead\<close> sets the code, whether an \<open>end\<close> has thrown or not.\<close>

lemma apply_op_chunks_status:
  "chunks (apply_op op c) = chunks c @ pushed [op] \<and>
   statusCode (apply_op op c) = last_writeHead_code (statusCode c) [op]"
proof (cases op)
  case (End x)
  then show ?thesis
    by (cases x) (simp_all add: end_response_def end_chunks_def)
qed (simp_all add: setHeader_def removeHeader_def write_chunk_def writeHead_def Let_def
       split: head_arg.splits option.splits)

lemma pushed_Cons: "pushed (op # ops) = pushed [op] @ pushed ops"
proof (cases op)
  case (End x)
  then show ?thesis by (cases x) simp_all
qed simp_all

lemma pushed_append: "pushed (xs @ ys) = pushed xs @ pushed ys"
proof (induction xs)
  case Nil
  then show ?case by simp
next
  case (Cons a xs)
  show ?case
    using pushed_Cons [of a "xs @ ys"] pushed_Cons [of a xs] Cons.IH by simp
qed

lemma last_writeHead_code_Cons:
  "last_writeHead_code d (op # ops) = last_writeHead_code (last_writeHead_code d [op]) ops"
  by (cases op) simp_all

lemma run_ops_chunks_status:
  "chunks (run_ops ops c) = chunks c @ pushed ops \<and>
   statusCode (run_ops ops c) = last_writeHead_code (statusCode c) ops"
proof (induction ops arbitrary: c)
  case Nil
  then show ?case by simp
next
  case (Cons op ops)
  show ?case
    using apply_op_chunks_status [of op c] Cons.IH [of "apply_op op c"]
      pushed_Cons [of op ops] last_writeHead_code_Cons [of "statusCode c" op ops]
    by simp
qed

text \<open>Headers that \<open>new Headers\<close> accepts stay so under accepted operations.\<close>

lemma assign_header_ok:
  "header_ok (k, v) \<Longrightarrow> list_all header_ok R \<Longrightarrow> list_all header_ok (assign_header k v R)"
  by (induction R) auto

lemma Object_assign_ok:
  "list_all header_ok hs \<Longrightarrow> list_all header_ok R \<Longrightarrow> list_all header_ok (Object_assign R hs)"
  unfolding Object_assign_def
  by (induction hs arbitrary: R) (auto simp add: assign_header_ok)

lemma filter_ok: "list_all header_ok R \<Longrightarrow> list_all header_ok (filter P R)"
  by (induction R) auto

lemma apply_op_headers_ok:
  "list_all header_ok (headers_of_op op) \<Longrightarrow> list_all header_ok (headers c) \<Longrightarrow>
     list_all header_ok (headers (apply_op op c))"
proof (cases op)
  case (WriteHead code m hs)
  assume a: "list_all header_ok (headers_of_op op)" and b: "list_all header_ok (headers c)"
  show ?thesis
  proof (cases m)
    case NoArg
    with WriteHead b show ?thesis by (simp add: writeHead_def)
  next
    case (Message x)
    with WriteHead a b show ?thesis
      by (cases hs) (simp_all add: writeHead_def Object_assign_ok)
  next
    case (HeadersArg x)
    with WriteHead a b show ?thesis by (simp add: writeHead_def Object_assign_ok)
  qed
qed (simp_all add: setHeader_def removeHeader_def write_chunk_def end_response_def
       assign_header_ok filter_ok)

lemma run_ops_headers_ok:
  "headers_accepted ops \<Longrightarrow> list_all header_ok (headers c) \<Longrightarrow>
     list_all header_ok (headers (run_ops ops c))"
  unfolding headers_accepted_def
  by (induction ops arbitrary: c) (simp_all add: apply_op_headers_ok)

lemma headerEntries_ok:
  "list_all header_ok R \<Longrightarrow>
     list_all (\<lambda>kv. valid_header_name (fst kv) \<and> valid_header_value (snd kv)) (headerEntries R)"
proof (induction R)
  case Nil
  then show ?case by simp
next
  case (Cons a R)
  obtain k v where a: "a = (k, v)" by (cases a)
  from Cons show ?case
    unfolding a by (cases v) (auto simp add: list_all_iff)
qed

lemma fill_Headers_ok:
  "list_all (\<lambda>kv. valid_header_name (fst kv) \<and> valid_header_value (snd kv)) es \<Longrightarrow>
     \<exists>h'. fill_Headers es h = Inr h'"
proof (induction es arbitrary: h)
  case Nil
  then show ?case by simp
next
  case (Cons e es)
  obtain k v where e: "e = (k, v)" by (cases e)
  from Cons.prems have v: "valid_header_name k \<and> valid_header_value v"
    and r: "list_all (\<lambda>kv. valid_header_name (fst kv) \<and> valid_header_value (snd kv)) es"
    by (simp_all add: e)
  from v obtain h1 where h1: "headers_append k v h = Inr h1"
    by (simp add: headers_append_def)
  from Cons.IH [OF r, of h1] show ?case by (simp add: e h1)
qed

lemma new_Headers_ok:
  "list_all header_ok R \<Longrightarrow> \<exists>h. new_Headers (headerEntries R) = Inr h"
  unfolding new_Headers_def by (rule fill_Headers_ok) (rule headerEntries_ok)

text \<open>When its constructors accept, \<open>end\<close> resolves a pending promise.\<close>

lemma new_NextResponse_ok:
  "200 \<le> s \<Longrightarrow> s \<le> 599 \<Longrightarrow> (s = 204 \<or> s = 205 \<or> s = 304 \<longrightarrow> body = None) \<Longrightarrow>
     \<exists>r. new_NextResponse body s h = Inr r \<and> res_status r = s \<and> res_body r = body"
  by (auto simp add: new_NextResponse_def Let_def)

lemma new_NextResponse_result:
  "new_NextResponse body s h = Inr r \<Longrightarrow> res_status r = s mod 65536 \<and> res_body r = body"
  by (auto simp add: new_NextResponse_def Let_def split: if_splits)

lemma end_response_resolves:
  assumes "responsePromise c = None" and "list_all header_ok (headers c)"
    and "200 \<le> statusCode c" and "statusCode c \<le> 599"
    and "statusCode c = 204 \<or> statusCode c = 205 \<or> statusCode c = 304 \<longrightarrow> end_chunks final c = []"
  shows "\<exists>r. responsePromise (end_response final c) = Some r \<and> res_status r = statusCode c \<and>
           res_body r = (if end_chunks final c = [] then None
                         else Some (toString_utf8 (concat (end_chunks final c))))"
proof -
  from new_Headers_ok [OF assms(2)] obtain h where h: "new_Headers (headerEntries (headers c)) = Inr h"
    by blast
  let ?body = "if end_chunks final c = [] then None
               else Some (toString_utf8 (concat (end_chunks final c)))"
  from assms(5) have "statusCode c = 204 \<or> statusCode c = 205 \<or> statusCode c = 304 \<longrightarrow> ?body = None"
    by simp
  from new_NextResponse_ok [OF assms(3,4) this, of h] obtain r where
    r: "new_NextResponse ?body (statusCode c) h = Inr r" "res_status r = statusCode c"
       "res_body r = ?body"
    by blast
  have "end_nextResponse final c = Inr r"
    using h r(1) by (auto simp add: end_nextResponse_def Let_def split: if_splits)
  with assms(1) r(2,3) show ?thesis
    by (simp add: end_response_def)
qed

lemma end_response_resolved:
  assumes "responsePromise c = None" and "responsePromise (end_response final c) = Some r"
  shows "res_status r = statusCode c mod 65536"
proof -
  from assms have "end_nextResponse final c = Inr r"
    by (simp add: end_response_def split: sum.splits)
  then obtain body h where "new_NextResponse body (statusCode c) h = Inr r"
    by (auto simp add: end_nextResponse_def Let_def split: sum.splits)
  from new_NextResponse_result [OF this] show ?thesis by simp
qed

lemma end_chunks_pushed:
  "end_chunks final (run_ops ops createServerResponse) = pushed (ops @ [End final])"
proof -
  have "chunks (run_ops ops createServerResponse) = pushed ops"
    using run_ops_chunks_status [of ops createServerResponse]
    by (simp add: createServerResponse_def)
  then show ?thesis
    by (cases final) (simp_all add: end_chunks_def pushed_append)
qed

text \<open>
  Claim C6. Take any calls on a fresh collector after which the promise is still pending,
  with headers that \<open>new Headers\<close> accepts and a last status from 200 to 599 that
  allows the body there is (204, 205 and 304 allow none). Then the next \<open>end\<close>
  resolves the promise, with the bytes pushed by every \<open>write\<close> and every \<open>end\<close>
  so far, in the order of the calls, read as UTF-8, and with no body when nothing was
  pushed; whatever is called afterwards, a further \<open>end\<close> included, leaves that
  response in place. Bytes that read back as themselves, as well-formed UTF-8 does, make
  the body the concatenation of the chunks. An \<open>end\<close> whose constructors throw
  resolves nothing: the promise stays pending, and a later \<open>end\<close> resolves it with the
  chunks of the failed call included.
\<close>

theorem collector_resolves_once_with_written_chunks:
  assumes "responsePromise (run_ops ops createServerResponse) = None"
    and "headers_accepted ops"
    and "200 \<le> last_writeHead_code 200 ops" and "last_writeHead_code 200 ops \<le> 599"
    and "last_writeHead_code 200 ops = 204 \<or> last_writeHead_code 200 ops = 205 \<or>
         last_writeHead_code 200 ops = 304 \<longrightarrow> pushed (ops @ [End final]) = []"
  shows "\<exists>r. responsePromise (run_ops (ops @ End final # later) createServerResponse) = Some r \<and>
           res_body r =
             (if pushed (ops @ [End final]) = [] then None
              else Some (toString_utf8 (concat (pushed (ops @ [End final]))))) \<and>
           (toString_utf8 (concat (pushed (ops @ [End final]))) = concat (pushed (ops @ [End final]))
              \<longrightarrow> (case res_body r of None \<Rightarrow> [] | Some s \<Rightarrow> s) =
                     concat (pushed (ops @ [End final])))"
proof -
  let ?c = "run_ops ops createServerResponse"
  have st: "statusCode ?c = last_writeHead_code 200 ops"
    using run_ops_chunks_status [of ops createServerResponse]
    by (simp add: createServerResponse_def)
  have ok: "list_all header_ok (headers ?c)"
    by (rule run_ops_headers_ok [OF assms(2)]) (simp add: createServerResponse_def)
  have "\<exists>r. responsePromise (end_response final ?c) = Some r \<and> res_status r = statusCode ?c \<and>
           res_body r = (if end_chunks final ?c = [] then None
                         else Some (toString_utf8 (concat (end_chunks final ?c))))"
    by (rule end_response_resolves [OF assms(1) ok])
       (use assms(3-5) in \<open>simp_all add: st end_chunks_pushed\<close>)
  then obtain r where r: "responsePromise (end_response final ?c) = Some r"
    "res_body r = (if pushed (ops @ [End final]) = [] then None
                   else Some (toString_utf8 (concat (pushed (ops @ [End final])))))"
    by (auto simp add: end_chunks_pushed)
  from run_ops_settled [OF r(1), of later]
  have "responsePromise (run_ops (ops @ End final # later) createServerResponse) = Some r"
    by simp
  with r(2) show ?thesis by auto
qed

lemma toString_ab: "toString_utf8 ''ab'' = ''ab''"
  by (simp add: toString_utf8_def utf8_lead_def)

theorem collector_resolves_ab_witness:
  "(\<exists>r. responsePromise
          (run_ops [Write (Str ''a''), Write (Str ''b''), End None, Write (Str ''c''), End None]
             createServerResponse) = Some r \<and>
        res_body r = Some ''ab'') \<and>
   responsePromise
     (run_ops [WriteHead 999 NoArg None, End None, WriteHead 200 NoArg None, Write (Str ''a'')]
        createServerResponse) = None \<and>
   (\<exists>r. responsePromise
          (run_ops [WriteHead 999 NoArg None, End None, WriteHead 200 NoArg None, Write (Str ''a''),
                    End (Some (Str ''b''))]
             createServerResponse) = Some r \<and>
        res_body r = Some ''ab'')"
proof -
  let ?ops1 = "[Write (Str ''a''), Write (Str ''b'')]"
  let ?ops2 = "[WriteHead 999 NoArg None, End None, WriteHead 200 NoArg None, Write (Str ''a'')]"
  have p1: "responsePromise (run_ops ?ops1 createServerResponse) = None"
    by (simp add: createServerResponse_def write_chunk_def)
  have p2: "responsePromise (run_ops ?ops2 createServerResponse) = None"
    by (simp add: createServerResponse_def write_chunk_def writeHead_def end_response_def
          end_nextResponse_def end_chunks_def new_Headers_def new_NextResponse_def Let_def)
  have a1: "headers_accepted ?ops1" and a2: "headers_accepted ?ops2"
    by (simp_all add: headers_accepted_def)
  from collector_resolves_once_with_written_chunks
         [OF p1 a1, of None "[Write (Str ''c''), End None]"]
  have r1: "\<exists>r. responsePromise
          (run_ops [Write (Str ''a''), Write (Str ''b''), End None, Write (Str ''c''), End None]
             createServerResponse) = Some r \<and> res_body r = Some ''ab''"
    by (auto simp add: toString_ab)
  from collector_resolves_once_with_written_chunks
         [OF p2 a2, of "Some (Str ''b'')" "[]"]
  have r2: "\<exists>r. responsePromise
          (run_ops [WriteHead 999 NoArg None, End None, WriteHead 200 NoArg None, Write (Str ''a''),
                    End (Some (Str ''b''))]
             createServerResponse) = Some r \<and> res_body r = Some ''ab''"
    by (auto simp add: toString_ab)
  from r1 p2 r2 show ?thesis by blast
qed

text \<open>The \<open>statusCode\<close> property of the response object is read by no method.\<close>

lemma prop_statusCode_eq:
  "c'\<lparr>prop_statusCode := 0\<rparr> = c\<lparr>prop_statusCode := 0\<rparr> \<Longrightarrow>
     c' = c\<lparr>prop_statusCode := prop_statusCode c'\<rparr>"
  by (cases c, cases c') simp

lemma end_nextResponse_prop_statusCode:
  "end_chunks ch (c\<lparr>prop_statusCode := n\<rparr>) = end_chunks ch c"
  "end_nextResponse ch (c\<lparr>prop_statusCode := n\<rparr>) = end_nextResponse ch c"
  by (simp_all add: end_nextResponse_def end_chunks_def Let_def split: option.splits sum.splits)

lemma apply_op_prop_statusCode:
  "(apply_op op (c\<lparr>prop_statusCode := n\<rparr>))\<lparr>prop_statusCode := 0\<rparr> =
   (apply_op op c)\<lparr>prop_statusCode := 0\<rparr>"
  by (cases op)
     (simp_all add: setHeader_def removeHeader_def write_chunk_def end_response_def
        end_nextResponse_prop_statusCode
        writeHead_def Let_def split: head_arg.splits option.splits sum.splits)

lemma apply_op_prop_irrelevant:
  assumes "c'\<lparr>prop_statusCode := 0\<rparr> = c\<lparr>prop_statusCode := 0\<rparr>"
  shows "(apply_op op c')\<lparr>prop_statusCode := 0\<rparr> = (apply_op op c)\<lparr>prop_statusCode := 0\<rparr>"
proof -
  have "(apply_op op (c\<lparr>prop_statusCode := prop_statusCode c'\<rparr>))\<lparr>prop_statusCode := 0\<rparr> =
        (apply_op op c)\<lparr>prop_statusCode := 0\<rparr>"
    by (rule apply_op_prop_statusCode)
  with prop_statusCode_eq [OF assms] show ?thesis
    by (rule subst [where P = "\<lambda>x. (apply_op op x)\<lparr>prop_statusCode := 0\<rparr> =
                                    (apply_op op c)\<lparr>prop_statusCode := 0\<rparr>", OF sym])
qed

lemma run_ops_prop_irrelevant:
  "c'\<lparr>prop_statusCode := 0\<rparr> = c\<lparr>prop_statusCode := 0\<rparr> \<Longrightarrow>
     (run_ops ops c')\<lparr>prop_statusCode := 0\<rparr> = (run_ops ops c)\<lparr>prop_statusCode := 0\<rparr>"
proof (induction ops arbitrary: c c')
  case Nil
  then show ?case by simp
next
  case (Cons op ops)
  have "(run_ops ops (apply_op op c'))\<lparr>prop_statusCode := 0\<rparr> =
        (run_ops ops (apply_op op c))\<lparr>prop_statusCode := 0\<rparr>"
    by (rule Cons.IH) (rule apply_op_prop_irrelevant [OF Cons.prems])
  then show ?case by simp
qed

text \<open>
  Claim C10. Take any calls on a fresh collector after which the promise is still pending.
  When the next \<open>end\<close> resolves it, the status of the response is the code of the most
  recent \<open>writeHead\<close>, or 200 when there was none (for a code below 65536: a
  \<open>Response\<close> keeps 16 bits of it). It does resolve it when the headers are accepted
  and the code is from 200 to 599 and allows the body, and the response then stays. An
  assignment to the \<open>statusCode\<close> property, anywhere among any calls, changes nothing
  of what the promise holds.
\<close>

theorem collector_status_is_last_writeHead:
  assumes "responsePromise (run_ops ops createServerResponse) = None"
  shows "(last_writeHead_code 200 ops < 65536 \<and>
          responsePromise (run_ops (ops @ [End final]) createServerResponse) = Some r \<longrightarrow>
            res_status r = last_writeHead_code 200 ops) \<and>
         (headers_accepted ops \<and>
          200 \<le> last_writeHead_code 200 ops \<and> last_writeHead_code 200 ops \<le> 599 \<and>
          (last_writeHead_code 200 ops = 204 \<or> last_writeHead_code 200 ops = 205 \<or>
           last_writeHead_code 200 ops = 304 \<longrightarrow> pushed (ops @ [End final]) = []) \<longrightarrow>
            (\<exists>r'. responsePromise (run_ops (ops @ End final # later) createServerResponse) = Some r' \<and>
                  res_status r' = last_writeHead_code 200 ops)) \<and>
         responsePromise (run_ops (before @ AssignStatusCode n # after) createServerResponse) =
           responsePromise (run_ops (before @ after) createServerResponse)"
proof (intro conjI impI)
  let ?c = "run_ops ops createServerResponse"
  have st: "statusCode ?c = last_writeHead_code 200 ops"
    using run_ops_chunks_status [of ops createServerResponse]
    by (simp add: createServerResponse_def)
  {
    assume h: "last_writeHead_code 200 ops < 65536 \<and>
          responsePromise (run_ops (ops @ [End final]) createServerResponse) = Some r"
    then have "responsePromise (end_response final ?c) = Some r" by simp
    from end_response_resolved [OF assms this] h
    show "res_status r = last_writeHead_code 200 ops" by (simp add: st)
  }
  {
    assume h: "headers_accepted ops \<and>
          200 \<le> last_writeHead_code 200 ops \<and> last_writeHead_code 200 ops \<le> 599 \<and>
          (last_writeHead_code 200 ops = 204 \<or> last_writeHead_code 200 ops = 205 \<or>
           last_writeHead_code 200 ops = 304 \<longrightarrow> pushed (ops @ [End final]) = [])"
    have ok: "list_all header_ok (headers ?c)"
      by (rule run_ops_headers_ok) (use h in \<open>simp_all add: createServerResponse_def\<close>)
    have "\<exists>r. responsePromise (end_response final ?c) = Some r \<and> res_status r = statusCode ?c \<and>
           res_body r = (if end_chunks final ?c = [] then None
                         else Some (toString_utf8 (concat (end_chunks final ?c))))"
      by (rule end_response_resolves [OF assms ok])
         (use h in \<open>simp_all add: st end_chunks_pushed\<close>)
    then obtain r' where r: "responsePromise (end_response final ?c) = Some r'"
      "res_status r' = last_writeHead_code 200 ops"
      by (auto simp add: st)
    from run_ops_settled [OF r(1), of later] r(2)
    show "\<exists>r'. responsePromise (run_ops (ops @ End final # later) createServerResponse) = Some r' \<and>
                  res_status r' = last_writeHead_code 200 ops"
      by simp
  }
  let ?b = "run_ops before createServerResponse"
  have "(run_ops after (?b\<lparr>prop_statusCode := n\<rparr>))\<lparr>prop_statusCode := 0\<rparr> =
        (run_ops after ?b)\<lparr>prop_statusCode := 0\<rparr>"
    by (rule run_ops_prop_irrelevant) simp
  then have "responsePromise ((run_ops after (?b\<lparr>prop_statusCode := n\<rparr>))\<lparr>prop_statusCode := 0\<rparr>) =
        responsePromise ((run_ops after ?b)\<lparr>prop_statusCode := 0\<rparr>)"
    by (rule arg_cong)
  then have "responsePromise (run_ops after (?b\<lparr>prop_statusCode := n\<rparr>)) =
             responsePromise (run_ops after ?b)"
    by simp
  then show "responsePromise (run_ops (before @ AssignStatusCode n # after) createServerResponse) =
           responsePromise (run_ops (before @ after) createServerResponse)"
    by simp
qed

theorem collector_status_witness:
  "(\<exists>r. responsePromise
          (run_ops [WriteHead 999 NoArg None, End None, WriteHead 201 NoArg None,
                    AssignStatusCode 404, WriteHead 202 NoArg None, Write (Str ''x''), End None]
             createServerResponse) = Some r \<and>
        res_status r = 202) \<and>
   (\<exists>r. responsePromise (run_ops [AssignStatusCode 404, End None] createServerResponse) = Some r \<and>
        res_status r = 200) \<and>
   responsePromise (run_ops [AssignStatusCode 404, End None] createServerResponse) =
     responsePromise (run_ops [End None] createServerResponse)"
proof -
  let ?ops = "[WriteHead 999 NoArg None, End None, WriteHead 201 NoArg None,
               AssignStatusCode 404, WriteHead 202 NoArg None, Write (Str ''x'')]"
  have p: "responsePromise (run_ops ?ops createServerResponse) = None"
    by (simp add: createServerResponse_def write_chunk_def writeHead_def end_response_def
          end_nextResponse_def end_chunks_def new_Headers_def new_NextResponse_def Let_def)
  have a: "headers_accepted ?ops" by (simp add: headers_accepted_def)
  have q: "responsePromise (run_ops [AssignStatusCode 404] createServerResponse) = None"
    by (simp add: createServerResponse_def)
  have b: "headers_accepted [AssignStatusCode 404]" by (simp add: headers_accepted_def)
  from collector_status_is_last_writeHead [OF p, where final = None and later = "[]"] a
  have r1: "\<exists>r. responsePromise
          (run_ops [WriteHead 999 NoArg None, End None, WriteHead 201 NoArg None,
                    AssignStatusCode 404, WriteHead 202 NoArg None, Write (Str ''x''), End None]
             createServerResponse) = Some r \<and> res_status r = 202"
    by (simp del: run_ops_Cons run_ops_Nil run_ops_append)
  note T = collector_status_is_last_writeHead
         [OF q, where final = None and later = "[]" and before = "[]" and n = 404
            and after = "[End None]"]
  from T [THEN conjunct2, THEN conjunct1] b
  have r2: "\<exists>r. responsePromise (run_ops [AssignStatusCode 404, End None] createServerResponse) = Some r \<and>
        res_status r = 200"
    by (simp del: run_ops_Cons run_ops_Nil run_ops_append)
  from T [THEN conjunct2, THEN conjunct2]
  have r3: "responsePromise (run_ops [AssignStatusCode 404, End None] createServerResponse) =
     responsePromise (run_ops [End None] createServerResponse)"
    by (simp del: run_ops_Cons run_ops_Nil run_ops_append)
  from r1 r2 r3 show ?thesis by blast
qed

section \<open>The Request Adapter: a new stream at every call\<close>

text \<open>
  Claim C5, as the code has it. Two calls of the adapter on the same request and body,
  whatever the store holds and though the first stream has been read in between, give two
  different streams and otherwise the same request object. Each stream yields, once, the
  serialised body when the body is truthy, and no byte when the body is absent or falsy
  (\<open>null\<close>, \<open>false\<close>, 0, the empty string); read again, either yields nothing.
\<close>

theorem adapter_fresh_single_pass:
  "(case createIncomingMessage req body h of (m1, h1) \<Rightarrow>
    case read_stream (im_stream m1) h1 of (d1, h2) \<Rightarrow>
    case createIncomingMessage req body h2 of (m2, h3) \<Rightarrow>
    case read_stream (im_stream m2) h3 of (d2, h4) \<Rightarrow>
      im_stream m2 \<noteq> im_stream m1 \<and>
      m2 = m1\<lparr>im_stream := im_stream m2\<rparr> \<and>
      concat d1 = (case body of None \<Rightarrow> [] | Some b \<Rightarrow> if truthy b then JSON_stringify b else []) \<and>
      concat d2 = concat d1 \<and>
      concat (fst (read_stream (im_stream m1) h4)) = [] \<and>
      concat (fst (read_stream (im_stream m2) h4)) = [])"
  by (simp add: createIncomingMessage_def Readable_from_def read_stream_def stream_content_def
        bodyString_def Let_def split: option.splits)

theorem adapter_witness:
  "(case createIncomingMessage (example_request [(''mcp-session-id'', ''s1'')] (JObj [(''id'', JNum 7)]))
          (Some (JObj [(''id'', JNum 7)])) empty_heap of (m1, h1) \<Rightarrow>
    case read_stream (im_stream m1) h1 of (d1, h2) \<Rightarrow>
    case createIncomingMessage (example_request [(''mcp-session-id'', ''s1'')] (JObj [(''id'', JNum 7)]))
          (Some (JObj [(''id'', JNum 7)])) h2 of (m2, h3) \<Rightarrow>
    case read_stream (im_stream m2) h3 of (d2, h4) \<Rightarrow>
      im_stream m1 = 0 \<and> im_stream m2 = 1 \<and>
      concat d1 = [CHR 0x7B, CHR 0x22, CHR ''i'', CHR ''d'', CHR 0x22, CHR '':'', CHR ''7'', CHR 0x7D] \<and>
      concat d2 = concat d1)"
  using adapter_fresh_single_pass
          [where req = "example_request [(''mcp-session-id'', ''s1'')] (JObj [(''id'', JNum 7)])"
             and body = "Some (JObj [(''id'', JNum 7)])" and h = empty_heap]
  by (simp add: createIncomingMessage_def Readable_from_def read_stream_def stream_content_def
        bodyString_def Let_def empty_heap_def quote_def quote_char_def show_int_def
        show_nat.simps digit_char_def)

text \<open>
  The claim as stated, that the chunks always concatenate to the serialised body, fails for
  the body 0: the stream is empty, the serialisation is the digit 0.
\<close>

theorem adapter_falsy_body_counterexample:
  "concat (fst (read_stream
       (im_stream (fst (createIncomingMessage (example_request [] (JNum 0)) (Some (JNum 0)) empty_heap)))
       (snd (createIncomingMessage (example_request [] (JNum 0)) (Some (JNum 0)) empty_heap))))
   \<noteq> JSON_stringify (JNum 0)"
  by (simp add: createIncomingMessage_def Readable_from_def read_stream_def stream_content_def
        bodyString_def Let_def empty_heap_def show_int_def show_nat.simps digit_char_def)

section \<open>The router: calls without a usable session\<close>

lemma res_status_setCorsHeaders [simp]: "res_status (setCorsHeaders r) = res_status r"
  by (simp add: setCorsHeaders_def)

lemma res_body_setCorsHeaders [simp]: "res_body (setCorsHeaders r) = res_body r"
  by (simp add: setCorsHeaders_def)

lemma res_status_POST_catch [simp]: "res_status (POST_catch env e) = 500"
  by (simp add: POST_catch_def NextResponse_json_def)

lemma POST_unknown_session:
  assumes "req_json req = Inr body" and "body \<noteq> JNull"
    and "\<not> isInitializeRequest env body"
    and "lookup_session (map_of (req_headers req) ''mcp-session-id'') st = None"
  shows "POST env st req = (st, Some (invalid_session_response body))"
  using assms by (simp add: POST_def)

text \<open>
  Claim C2. A call whose body is a JSON value other than \<open>null\<close> (a call envelope is
  an object), that is not an initialize request, and whose session header is absent or
  names an id the registry does not hold, is answered with status 400 and the error code
  -32000, whatever else the body holds; the registry is left as it was.
\<close>

theorem POST_missing_or_unknown_session:
  assumes "req_json req = Inr body" and "body \<noteq> JNull"
    and "\<not> isInitializeRequest env body"
    and "(case map_of (req_headers req) ''mcp-session-id'' of
            None \<Rightarrow> True | Some sid \<Rightarrow> transports st sid = None)"
  shows "\<exists>r. POST env st req = (st, Some r) \<and> res_status r = 400 \<and>
           res_body r = Some (JSON_stringify
             (JObj [(''jsonrpc'', JStr ''2.0''),
                    (''error'',
                       JObj [(''code'', JNum (- 32000)),
                             (''message'',
                                JStr ''Bad Request: No valid session ID provided or session not found''),
                             (''data'',
                                JObj [(''hint'', JStr ''Please send an initialize request first'')])]),
                    (''id'', id_or_null body)]))"
proof -
  from assms(4) have "lookup_session (map_of (req_headers req) ''mcp-session-id'') st = None"
    by (simp add: lookup_session_def split: option.splits)
  with assms(1-3) have "POST env st req = (st, Some (invalid_session_response body))"
    by (simp add: POST_def)
  moreover have "res_status (invalid_session_response body) = 400"
    by (simp add: invalid_session_response_def NextResponse_json_def)
  moreover have "res_body (invalid_session_response body) = Some (JSON_stringify
             (JObj [(''jsonrpc'', JStr ''2.0''),
                    (''error'',
                       JObj [(''code'', JNum (- 32000)),
                             (''message'',
                                JStr ''Bad Request: No valid session ID provided or session not found''),
                             (''data'',
                                JObj [(''hint'', JStr ''Please send an initialize request first'')])]),
                    (''id'', id_or_null body)]))"
    by (simp only: invalid_session_response_def res_body_setCorsHeaders NextResponse_json_def response.simps)
  ultimately show ?thesis by blast
qed

theorem POST_missing_session_witness:
  "req_json (example_request [] (JObj [(''method'', JStr ''tools/list''), (''id'', JNum 1)])) =
     Inr (JObj [(''method'', JStr ''tools/list''), (''id'', JNum 1)]) \<and>
   \<not> isInitializeRequest example_runtime (JObj [(''method'', JStr ''tools/list''), (''id'', JNum 1)]) \<and>
   (\<exists>r. POST example_runtime initial_server
          (example_request [] (JObj [(''method'', JStr ''tools/list''), (''id'', JNum 1)])) =
          (initial_server, Some r) \<and> res_status r = 400)"
  using POST_missing_or_unknown_session
     [of "example_request [] (JObj [(''method'', JStr ''tools/list''), (''id'', JNum 1)])"
         "JObj [(''method'', JStr ''tools/list''), (''id'', JNum 1)]" example_runtime initial_server]
  by (auto simp add: example_request_def example_runtime_def example_isInitializeRequest_def)

text \<open>
  The body \<open>null\<close> is no call envelope. Reading \<open>body.method\<close> for the request
  log raises on it, before any routing, and the \<open>catch\<close> block answers with status 500.
\<close>

lemma POST_null_body:
  "map_option res_status (snd (POST example_runtime initial_server (example_request [] JNull))) = Some 500"
  by (simp add: POST_def example_request_def)

text \<open>
  Claim C3. \<open>DELETE\<close> without a session id (no header, or an empty one) answers 400 and
  with an id the registry does not hold answers 404, both leaving the server as it was.
  With a registered id it answers 200 and removes that entry and nothing else: the
  transports and their \<open>sessionId\<close> are untouched, and no engine is called. A later
  continuing call with the same id is then answered as an unknown session, with 400.
\<close>

theorem DELETE_removes_session:
  "((map_of (req_headers req) ''mcp-session-id'' = None \<or>
     map_of (req_headers req) ''mcp-session-id'' = Some []) \<longrightarrow>
      fst (DELETE st req) = st \<and> res_status (snd (DELETE st req)) = 400) \<and>
   (map_of (req_headers req) ''mcp-session-id'' = Some sid \<and> sid \<noteq> [] \<and>
    transports st sid = None \<longrightarrow>
      fst (DELETE st req) = st \<and> res_status (snd (DELETE st req)) = 404) \<and>
   (map_of (req_headers req) ''mcp-session-id'' = Some sid \<and> sid \<noteq> [] \<and>
    transports st sid = Some t \<longrightarrow>
      fst (DELETE st req) = st\<lparr> transports := (transports st)(sid := None) \<rparr> \<and>
      res_status (snd (DELETE st req)) = 200 \<and>
      (req_json req' = Inr body \<and> body \<noteq> JNull \<and> \<not> isInitializeRequest env body \<and>
       map_of (req_headers req') ''mcp-session-id'' = Some sid \<longrightarrow>
          POST env (fst (DELETE st req)) req' =
            (fst (DELETE st req), Some (invalid_session_response body)) \<and>
          res_status (invalid_session_response body) = 400))"
proof (intro conjI impI)
  assume "map_of (req_headers req) ''mcp-session-id'' = None \<or>
     map_of (req_headers req) ''mcp-session-id'' = Some []"
  then show "fst (DELETE st req) = st" "res_status (snd (DELETE st req)) = 400"
    by (auto simp add: DELETE_def NextResponse_json_def)
next
  assume "map_of (req_headers req) ''mcp-session-id'' = Some sid \<and> sid \<noteq> [] \<and>
          transports st sid = None"
  then show "fst (DELETE st req) = st" "res_status (snd (DELETE st req)) = 404"
    by (auto simp add: DELETE_def NextResponse_json_def)
next
  assume h: "map_of (req_headers req) ''mcp-session-id'' = Some sid \<and> sid \<noteq> [] \<and>
          transports st sid = Some t"
  then show d: "fst (DELETE st req) = st\<lparr> transports := (transports st)(sid := None) \<rparr>"
    and "res_status (snd (DELETE st req)) = 200"
    by (auto simp add: DELETE_def NextResponse_json_def)
  assume p: "req_json req' = Inr body \<and> body \<noteq> JNull \<and> \<not> isInitializeRequest env body \<and>
          map_of (req_headers req') ''mcp-session-id'' = Some sid"
  have "lookup_session (map_of (req_headers req') ''mcp-session-id'') (fst (DELETE st req)) = None"
    using p by (simp add: d lookup_session_def)
  with p show "POST env (fst (DELETE st req)) req' =
            (fst (DELETE st req), Some (invalid_session_response body))"
    by (simp add: POST_unknown_session)
  show "res_status (invalid_session_response body) = 400"
    by (simp add: invalid_session_response_def NextResponse_json_def)
qed

theorem DELETE_witness:
  "res_status (snd (DELETE one_session (example_request [] JNull))) = 400 \<and>
   res_status (snd (DELETE one_session (example_request [(''mcp-session-id'', ''s2'')] JNull))) = 404 \<and>
   fst (DELETE one_session (example_request [(''mcp-session-id'', ''s2'')] JNull)) = one_session \<and>
   transports (fst (DELETE one_session (example_request [(''mcp-session-id'', ''s1'')] JNull))) ''s1'' = None \<and>
   res_status (snd (DELETE one_session (example_request [(''mcp-session-id'', ''s1'')] JNull))) = 200 \<and>
   map_option res_status (snd (POST example_runtime
       (fst (DELETE one_session (example_request [(''mcp-session-id'', ''s1'')] JNull)))
       (example_request [(''mcp-session-id'', ''s1'')] (JObj [(''method'', JStr ''tools/list'')])))) = Some 400"
proof -
  let ?del = "example_request [(''mcp-session-id'', ''s1'')] JNull"
  let ?body = "JObj [(''method'', JStr ''tools/list'')]"
  let ?next = "example_request [(''mcp-session-id'', ''s1'')] ?body"
  have absent: "res_status (snd (DELETE one_session (example_request [] JNull))) = 400"
    using DELETE_removes_session [where req = "example_request [] JNull" and st = one_session]
    by (simp add: example_request_def)
  have unknown:
    "res_status (snd (DELETE one_session (example_request [(''mcp-session-id'', ''s2'')] JNull))) = 404 \<and>
     fst (DELETE one_session (example_request [(''mcp-session-id'', ''s2'')] JNull)) = one_session"
    using DELETE_removes_session [where req = "example_request [(''mcp-session-id'', ''s2'')] JNull"
      and st = one_session and sid = "''s2''"]
    by (simp add: example_request_def one_session_def)
  have h1: "map_of (req_headers ?del) ''mcp-session-id'' = Some ''s1'' \<and> ''s1'' \<noteq> [] \<and>
            transports one_session ''s1'' = Some 0"
    by (simp add: example_request_def one_session_def)
  have h2: "req_json ?next = Inr ?body \<and> ?body \<noteq> JNull \<and>
            \<not> isInitializeRequest example_runtime ?body \<and>
            map_of (req_headers ?next) ''mcp-session-id'' = Some ''s1''"
    by (simp add: example_request_def example_runtime_def example_isInitializeRequest_def)
  have known:
    "fst (DELETE one_session ?del) = one_session\<lparr> transports := (transports one_session)(''s1'' := None) \<rparr> \<and>
     res_status (snd (DELETE one_session ?del)) = 200 \<and>
     POST example_runtime (fst (DELETE one_session ?del)) ?next =
       (fst (DELETE one_session ?del), Some (invalid_session_response ?body)) \<and>
     res_status (invalid_session_response ?body) = 400"
    using DELETE_removes_session [where req = ?del
      and st = one_session and sid = "''s1''" and t = 0 and env = example_runtime
      and req' = ?next and body = ?body] h1 h2
    by blast
  from known have d: "fst (DELETE one_session ?del) =
      one_session\<lparr> transports := (transports one_session)(''s1'' := None) \<rparr>"
    and post: "POST example_runtime (fst (DELETE one_session ?del)) ?next =
       (fst (DELETE one_session ?del), Some (invalid_session_response ?body))"
    and st400: "res_status (invalid_session_response ?body) = 400"
    by blast+
  have gone: "transports (fst (DELETE one_session ?del)) ''s1'' = None"
    unfolding d by simp
  have after:
    "map_option res_status (snd (POST example_runtime (fst (DELETE one_session ?del)) ?next)) = Some 400"
    unfolding post by (simp add: st400)
  from absent unknown known gone after show ?thesis
    by blast
qed

section \<open>The router: failures of the engine\<close>

lemma res_body_POST_catch:
  "res_body (POST_catch env e) =
     Some (JSON_stringify
       (JObj [(''jsonrpc'', JStr ''2.0''),
              (''error'',
                 JObj ([(''code'', JNum (- 32603)), (''message'', JStr ''Internal server error'')] @
                       (if NODE_ENV env = Some ''development''
                        then [(''data'', JObj [(''error'', JStr (error_text e))])] else []))),
              (''id'', JNull)]))"
  by (simp only: POST_catch_def res_body_setCorsHeaders NextResponse_json_def response.simps)

lemma POST_catch_production:
  "NODE_ENV env \<noteq> Some ''development'' \<Longrightarrow> POST_catch env e1 = POST_catch env e2"
  by (simp add: POST_catch_def)

lemma delegate_Threw:
  "snd (delegate env t (acts, Threw e) st) = Some (POST_catch env e) \<and>
   fst (delegate env t (acts, Threw e) st) = fst (fold (apply_engine_action t) acts (st, createServerResponse))"
  by (simp add: delegate_def split_def)

text \<open>
  Claim C9. Outside development mode the answer of the \<open>catch\<close> block does not depend on
  the error: two requests whose decoding fails with different errors, and two engines that
  do the same and throw different errors, get the same answer, whose error object holds the
  code and the generic message and no \<open>data\<close>. In development mode the error object also
  holds \<open>data\<close> with the error's message.
\<close>

theorem production_hides_error_detail:
  "(NODE_ENV env \<noteq> Some ''development'' \<longrightarrow>
      POST env st (req\<lparr> req_json := Inl e1 \<rparr>) = POST env st (req\<lparr> req_json := Inl e2 \<rparr>) \<and>
      POST (env\<lparr> handleRequest := (\<lambda>t u im cs. (A t u im cs, Threw e1)) \<rparr>) st req =
        POST (env\<lparr> handleRequest := (\<lambda>t u im cs. (A t u im cs, Threw e2)) \<rparr>) st req \<and>
      res_body (POST_catch env e1) =
        Some (JSON_stringify
          (JObj [(''jsonrpc'', JStr ''2.0''),
                 (''error'',
                    JObj [(''code'', JNum (- 32603)), (''message'', JStr ''Internal server error'')]),
                 (''id'', JNull)]))) \<and>
   (NODE_ENV env = Some ''development'' \<longrightarrow>
      res_body (POST_catch env e1) =
        Some (JSON_stringify
          (JObj [(''jsonrpc'', JStr ''2.0''),
                 (''error'',
                    JObj [(''code'', JNum (- 32603)), (''message'', JStr ''Internal server error''),
                          (''data'', JObj [(''error'', JStr (error_text e1))])]),
                 (''id'', JNull)])))"
proof (intro conjI impI)
  assume prod: "NODE_ENV env \<noteq> Some ''development''"
  show "POST env st (req\<lparr> req_json := Inl e1 \<rparr>) = POST env st (req\<lparr> req_json := Inl e2 \<rparr>)"
    by (simp add: POST_def POST_catch_production [OF prod, of e1 e2])
  let ?env1 = "env\<lparr> handleRequest := (\<lambda>t u im cs. (A t u im cs, Threw e1)) \<rparr>"
  let ?env2 = "env\<lparr> handleRequest := (\<lambda>t u im cs. (A t u im cs, Threw e2)) \<rparr>"
  have c: "\<And>e. POST_catch ?env1 e = POST_catch ?env2 e"
    by (simp add: POST_catch_def)
  have c12: "POST_catch ?env2 e1 = POST_catch ?env2 e2"
    by (rule POST_catch_production) (simp add: prod)
  have d: "\<And>t acts s. delegate ?env1 t (acts, Threw e1) s = delegate ?env2 t (acts, Threw e2) s"
    by (simp add: delegate_def split_def c c12)
  have i: "\<And>b s. POST_initialize ?env1 req b s = POST_initialize ?env2 req b s"
    by (simp add: POST_initialize_def split_def Let_def c d split: option.splits)
  have k: "\<And>b t s. POST_continue ?env1 req b t s = POST_continue ?env2 req b t s"
    by (simp add: POST_continue_def split_def Let_def d)
  show "POST ?env1 st req = POST ?env2 st req"
    by (simp add: POST_def Let_def c i k split: sum.splits option.splits)
  show "res_body (POST_catch env e1) =
        Some (JSON_stringify
          (JObj [(''jsonrpc'', JStr ''2.0''),
                 (''error'',
                    JObj [(''code'', JNum (- 32603)), (''message'', JStr ''Internal server error'')]),
                 (''id'', JNull)]))"
    using prod by (simp add: res_body_POST_catch del: JSON_stringify.simps)
next
  assume "NODE_ENV env = Some ''development''"
  then show "res_body (POST_catch env e1) =
        Some (JSON_stringify
          (JObj [(''jsonrpc'', JStr ''2.0''),
                 (''error'',
                    JObj [(''code'', JNum (- 32603)), (''message'', JStr ''Internal server error''),
                          (''data'', JObj [(''error'', JStr (error_text e1))])]),
                 (''id'', JNull)]))"
    by (simp add: res_body_POST_catch del: JSON_stringify.simps)
qed

theorem production_hides_error_detail_witness:
  "NODE_ENV example_runtime \<noteq> Some ''development'' \<and>
   POST example_runtime one_session
     ((example_request [] JNull)\<lparr> req_json := Inl (ErrorInstance ''Unexpected token'' ''SyntaxError'') \<rparr>) =
   POST example_runtime one_session
     ((example_request [] JNull)\<lparr> req_json := Inl (OtherThrown ''boom'') \<rparr>) \<and>
   NODE_ENV (example_runtime\<lparr> NODE_ENV := Some ''development'' \<rparr>) = Some ''development'' \<and>
   res_body (POST_catch (example_runtime\<lparr> NODE_ENV := Some ''development'' \<rparr>) (OtherThrown ''boom'')) =
     Some (JSON_stringify
       (JObj [(''jsonrpc'', JStr ''2.0''),
              (''error'',
                 JObj [(''code'', JNum (- 32603)), (''message'', JStr ''Internal server error''),
                       (''data'', JObj [(''error'', JStr ''boom'')])]),
              (''id'', JNull)]))"
proof -
  have p: "NODE_ENV example_runtime \<noteq> Some ''development''"
    by (simp add: example_runtime_def example_isInitializeRequest_def)
  have d: "NODE_ENV (example_runtime\<lparr> NODE_ENV := Some ''development'' \<rparr>) = Some ''development''"
    by simp
  from production_hides_error_detail
         [where env = example_runtime and st = one_session and req = "example_request [] JNull"
            and ?e1.0 = "ErrorInstance ''Unexpected token'' ''SyntaxError''"
            and ?e2.0 = "OtherThrown ''boom''"] p
  have a: "POST example_runtime one_session
     ((example_request [] JNull)\<lparr> req_json := Inl (ErrorInstance ''Unexpected token'' ''SyntaxError'') \<rparr>) =
   POST example_runtime one_session
     ((example_request [] JNull)\<lparr> req_json := Inl (OtherThrown ''boom'') \<rparr>)"
    by blast
  from production_hides_error_detail
         [where env = "example_runtime\<lparr> NODE_ENV := Some ''development'' \<rparr>"
            and ?e1.0 = "OtherThrown ''boom''"] d
  have b: "res_body (POST_catch (example_runtime\<lparr> NODE_ENV := Some ''development'' \<rparr>) (OtherThrown ''boom'')) =
     Some (JSON_stringify
       (JObj [(''jsonrpc'', JStr ''2.0''),
              (''error'',
                 JObj [(''code'', JNum (- 32603)), (''message'', JStr ''Internal server error''),
                       (''data'', JObj [(''error'', JStr (error_text (OtherThrown ''boom'')))])]),
              (''id'', JNull)]))"
    by blast
  have e: "error_text (OtherThrown ''boom'') = ''boom''" by simp
  from p a d b [unfolded e] show ?thesis by blast
qed

lemma apply_engine_action_shrinks:
  "\<not> is_onsessioninitialized a \<Longrightarrow>
     transports (fst (apply_engine_action t a (st, c))) k = None \<or>
     transports (fst (apply_engine_action t a (st, c))) k = transports st k"
  by (cases a) (simp_all split: option.splits)

lemma fold_engine_shrinks:
  "list_all (\<lambda>a. \<not> is_onsessioninitialized a) acts \<Longrightarrow>
     transports (fst (fold (apply_engine_action t) acts (st, c))) k = None \<or>
     transports (fst (fold (apply_engine_action t) acts (st, c))) k = transports st k"
proof (induction acts arbitrary: st c)
  case Nil
  then show ?case by simp
next
  case (Cons a acts)
  obtain st1 c1 where s1: "apply_engine_action t a (st, c) = (st1, c1)"
    by (cases "apply_engine_action t a (st, c)")
  from Cons.prems have na: "\<not> is_onsessioninitialized a"
    and rest: "list_all (\<lambda>a. \<not> is_onsessioninitialized a) acts" by simp_all
  from apply_engine_action_shrinks [OF na, of t st c k] s1
  have one: "transports st1 k = None \<or> transports st1 k = transports st k" by simp
  from Cons.IH [OF rest, of st1 c1] one s1 show ?case
    by auto
qed

lemma transports_new_transport [simp]:
  "transports (snd (new_transport st)) = transports st" "fst (new_transport st) = next_transport st"
  by (simp_all add: new_transport_def)

lemma discard_existing_shrinks:
  "transports (discard_existing sid st) k = None \<or>
   transports (discard_existing sid st) k = transports st k"
  by (simp add: discard_existing_def split: option.splits)

lemma next_transport_discard_existing [simp]:
  "next_transport (discard_existing sid st) = next_transport st"
  by (simp add: discard_existing_def split: option.splits)

text \<open>
  Claim C7. When the engine throws during a call, initialising or continuing, the handler
  returns the internal error: status 500 and the error code -32603. When an initialising
  call fails so and the engine has not called \<open>onsessioninitialized\<close>, the registry gains
  nothing: every entry it holds afterwards was there before, with the same transport.
\<close>

theorem POST_engine_failure:
  assumes "req_json req = Inr body" and "body \<noteq> JNull"
  shows
    "(isInitializeRequest env body \<and> connect env (next_transport st) = None \<and>
      handleRequest env (next_transport st) (randomUUID env)
        (fst (engine_input_initialize req body)) (snd (engine_input_initialize req body)) =
        (acts, Threw e) \<longrightarrow>
        snd (POST env st req) = Some (POST_catch env e) \<and>
        (list_all (\<lambda>a. \<not> is_onsessioninitialized a) acts \<longrightarrow>
           (\<forall>k. transports (fst (POST env st req)) k = None \<or>
                transports (fst (POST env st req)) k = transports st k))) \<and>
     (\<not> isInitializeRequest env body \<and>
      lookup_session (map_of (req_headers req) ''mcp-session-id'') st = Some t \<and>
      handleRequest env t (randomUUID env)
        (fst (engine_input_continue req body)) (snd (engine_input_continue req body)) =
        (acts, Threw e) \<longrightarrow>
        snd (POST env st req) = Some (POST_catch env e)) \<and>
     res_status (POST_catch env e) = 500 \<and>
     res_body (POST_catch env e) =
       Some (JSON_stringify
         (JObj [(''jsonrpc'', JStr ''2.0''),
                (''error'',
                   JObj ([(''code'', JNum (- 32603)), (''message'', JStr ''Internal server error'')] @
                         (if NODE_ENV env = Some ''development''
                          then [(''data'', JObj [(''error'', JStr (error_text e))])] else []))),
                (''id'', JNull)]))"
proof (intro conjI impI allI)
  let ?sid = "map_of (req_headers req) ''mcp-session-id''"
  let ?st0 = "discard_existing ?sid st"
  assume h: "isInitializeRequest env body \<and> connect env (next_transport st) = None \<and>
      handleRequest env (next_transport st) (randomUUID env)
        (fst (engine_input_initialize req body)) (snd (engine_input_initialize req body)) =
        (acts, Threw e)"
  have p: "POST env st req =
      delegate env (next_transport st) (acts, Threw e) (snd (new_transport ?st0))"
    using assms h by (simp add: POST_def POST_initialize_def split_def Let_def)
  show "snd (POST env st req) = Some (POST_catch env e)"
    unfolding p by (simp add: delegate_Threw)
  assume n: "list_all (\<lambda>a. \<not> is_onsessioninitialized a) acts"
  fix k
  from fold_engine_shrinks [OF n, of "next_transport st" "snd (new_transport ?st0)" createServerResponse k]
    discard_existing_shrinks [of ?sid st k]
  show "transports (fst (POST env st req)) k = None \<or>
        transports (fst (POST env st req)) k = transports st k"
    unfolding p by (auto simp add: delegate_Threw)
next
  assume h: "\<not> isInitializeRequest env body \<and>
      lookup_session (map_of (req_headers req) ''mcp-session-id'') st = Some t \<and>
      handleRequest env t (randomUUID env)
        (fst (engine_input_continue req body)) (snd (engine_input_continue req body)) =
        (acts, Threw e)"
  have p: "POST env st req = delegate env t (acts, Threw e) st"
    using assms h by (simp add: POST_def POST_continue_def split_def Let_def)
  show "snd (POST env st req) = Some (POST_catch env e)"
    unfolding p by (simp add: delegate_Threw)
next
  show "res_status (POST_catch env e) = 500" by simp
  show "res_body (POST_catch env e) =
       Some (JSON_stringify
         (JObj [(''jsonrpc'', JStr ''2.0''),
                (''error'',
                   JObj ([(''code'', JNum (- 32603)), (''message'', JStr ''Internal server error'')] @
                         (if NODE_ENV env = Some ''development''
                          then [(''data'', JObj [(''error'', JStr (error_text e))])] else []))),
                (''id'', JNull)]))"
    by (rule res_body_POST_catch)
qed

theorem POST_engine_failure_witness:
  "map_option res_status
     (snd (POST failing_runtime one_session (example_request [(''mcp-session-id'', ''s1'')] initialize_body))) = Some 500 \<and>
   transports (fst (POST failing_runtime one_session
     (example_request [(''mcp-session-id'', ''s1'')] initialize_body))) = Map.empty \<and>
   map_option res_status
     (snd (POST failing_runtime one_session (example_request [(''mcp-session-id'', ''s1'')] list_body))) = Some 500"
proof -
  let ?init = "example_request [(''mcp-session-id'', ''s1'')] initialize_body"
  let ?list = "example_request [(''mcp-session-id'', ''s1'')] list_body"
  let ?acts = "[AssignSessionId (randomUUID failing_runtime), Response (Write (Str ''partial''))]"
  let ?e = "ErrorInstance ''tool exploded'' ''Error: tool exploded at handler''"
  have a1: "req_json ?init = Inr initialize_body" "initialize_body \<noteq> JNull"
    by (simp_all add: example_request_def initialize_body_def)
  have a2: "req_json ?list = Inr list_body" "list_body \<noteq> JNull"
    by (simp_all add: example_request_def list_body_def)
  have h1: "isInitializeRequest failing_runtime initialize_body \<and>
      connect failing_runtime (next_transport one_session) = None \<and>
      handleRequest failing_runtime (next_transport one_session) (randomUUID failing_runtime)
        (fst (engine_input_initialize ?init initialize_body))
        (snd (engine_input_initialize ?init initialize_body)) = (?acts, Threw ?e)"
    by (simp add: failing_runtime_def example_runtime_def example_isInitializeRequest_def initialize_body_def)
  have n: "list_all (\<lambda>a. \<not> is_onsessioninitialized a) ?acts" by simp
  have h2: "\<not> isInitializeRequest failing_runtime list_body \<and>
      lookup_session (map_of (req_headers ?list) ''mcp-session-id'') one_session = Some 0 \<and>
      handleRequest failing_runtime 0 (randomUUID failing_runtime)
        (fst (engine_input_continue ?list list_body))
        (snd (engine_input_continue ?list list_body)) = (?acts, Threw ?e)"
    by (simp add: failing_runtime_def example_runtime_def example_isInitializeRequest_def list_body_def example_request_def
          lookup_session_def one_session_def)
  from POST_engine_failure [OF a1, where env = failing_runtime and st = one_session and acts = ?acts and e = ?e] h1 n
  have r1: "snd (POST failing_runtime one_session ?init) = Some (POST_catch failing_runtime ?e)"
    and r2: "\<forall>k. transports (fst (POST failing_runtime one_session ?init)) k = None \<or>
                transports (fst (POST failing_runtime one_session ?init)) k = transports one_session k"
    and r3: "res_status (POST_catch failing_runtime ?e) = 500"
    by blast+
  from POST_engine_failure [OF a2, where env = failing_runtime and st = one_session and acts = ?acts and e = ?e and t = 0] h2
  have r4: "snd (POST failing_runtime one_session ?list) = Some (POST_catch failing_runtime ?e)"
    by blast
  have empty: "transports (fst (POST failing_runtime one_session ?init)) = Map.empty"
    by (simp add: POST_def POST_initialize_def delegate_def split_def Let_def failing_runtime_def
          example_runtime_def example_isInitializeRequest_def initialize_body_def example_request_def discard_existing_def
          one_session_def new_transport_def)
  show ?thesis
    unfolding r1 r4 by (simp add: empty)
qed

section \<open>The router: the sessions it registers\<close>

text \<open>
  Every step of the server keeps \<open>registry_inv\<close>: ids enter the registry only through
  \<open>onsessioninitialized\<close>, and a transport is numbered before it is used.
\<close>

lemma registry_inv_more: "registry_inv ids st \<Longrightarrow> registry_inv (u # ids) st"
  by (auto simp add: registry_inv_def)

lemma apply_engine_action_inv:
  assumes "registers_only u [a]" and "registry_inv ids st" and "u \<in> set ids"
    and "t < next_transport st"
  shows "registry_inv ids (fst (apply_engine_action t a (st, c))) \<and>
         next_transport (fst (apply_engine_action t a (st, c))) = next_transport st"
  using assms by (cases a) (auto simp add: registry_inv_def split: option.splits)

lemma registers_only_Cons:
  "registers_only u (a # acts) = (registers_only u [a] \<and> registers_only u acts)"
  by (cases a) simp_all

lemma fold_engine_inv:
  assumes "registers_only u acts" and "registry_inv ids st" and "u \<in> set ids"
    and "t < next_transport st"
  shows "registry_inv ids (fst (fold (apply_engine_action t) acts (st, c))) \<and>
         next_transport (fst (fold (apply_engine_action t) acts (st, c))) = next_transport st"
  using assms
proof (induction acts arbitrary: st c)
  case Nil
  then show ?case by simp
next
  case (Cons a acts)
  obtain st1 c1 where s1: "apply_engine_action t a (st, c) = (st1, c1)"
    by (cases "apply_engine_action t a (st, c)")
  from Cons.prems(1) have a: "registers_only u [a]" and r: "registers_only u acts"
    using registers_only_Cons [of u a acts] by simp_all
  from apply_engine_action_inv [OF a Cons.prems(2,3,4), of c] s1
  have i1: "registry_inv ids st1" and n1: "next_transport st1 = next_transport st" by simp_all
  from Cons.IH [OF r i1 Cons.prems(3), of c1] Cons.prems(4) n1 s1
  show ?case by simp
qed

lemma delegate_fst:
  "fst (delegate env t (acts, out) st) = fst (fold (apply_engine_action t) acts (st, createServerResponse))"
  by (simp add: delegate_def split_def Let_def split: outcome.splits option.splits sum.splits)

lemma discard_existing_inv:
  "registry_inv ids st \<Longrightarrow> registry_inv ids (discard_existing sid st)"
  by (auto simp add: registry_inv_def discard_existing_def split: option.splits if_splits)

lemma new_transport_inv:
  "registry_inv ids st \<Longrightarrow> registry_inv ids (snd (new_transport st)) \<and>
     fst (new_transport st) < next_transport (snd (new_transport st))"
  by (auto simp add: registry_inv_def new_transport_def less_Suc_eq)

lemma POST_inv:
  assumes inv: "registry_inv ids st"
    and eng: "\<And>t im cs. registers_only (randomUUID env) (fst (handleRequest env t (randomUUID env) im cs))"
  shows "registry_inv (randomUUID env # ids) (fst (POST env st req))"
proof -
  let ?u = "randomUUID env"
  let ?sid = "map_of (req_headers req) ''mcp-session-id''"
  have inv': "registry_inv (?u # ids) st" by (rule registry_inv_more [OF inv])
  have del: "\<And>t im cs s. registry_inv (?u # ids) s \<Longrightarrow> t < next_transport s \<Longrightarrow>
      registry_inv (?u # ids) (fst (delegate env t (handleRequest env t ?u im cs) s))"
  proof -
    fix t im cs s
    assume a: "registry_inv (?u # ids) s" and b: "t < next_transport s"
    obtain acts out where run: "handleRequest env t ?u im cs = (acts, out)"
      by (cases "handleRequest env t ?u im cs")
    from eng [of t im cs] run have r: "registers_only ?u acts" by simp
    from fold_engine_inv [OF r a _ b, of createServerResponse]
    show "registry_inv (?u # ids) (fst (delegate env t (handleRequest env t ?u im cs) s))"
      by (simp add: run delegate_fst)
  qed
  show ?thesis
  proof (cases "req_json req")
    case (Inl e)
    then show ?thesis using inv' by (simp add: POST_def)
  next
    case (Inr body)
    show ?thesis
    proof (cases "body = JNull")
      case True
      with Inr inv' show ?thesis by (simp add: POST_def)
    next
      case False
      show ?thesis
      proof (cases "isInitializeRequest env body")
        case True
        let ?st0 = "discard_existing ?sid st"
        have i0: "registry_inv (?u # ids) ?st0" by (rule discard_existing_inv [OF inv'])
        note nt = new_transport_inv [OF i0]
        have "registry_inv (?u # ids) (fst (POST_initialize env req body ?st0))"
        proof (cases "connect env (fst (new_transport ?st0))")
          case None
          then show ?thesis
            using del [OF nt [THEN conjunct1] nt [THEN conjunct2]]
            by (simp add: POST_initialize_def split_def Let_def)
        next
          case (Some e)
          then show ?thesis
            using nt by (simp add: POST_initialize_def split_def Let_def)
        qed
        with Inr False True show ?thesis by (simp add: POST_def)
      next
        case notinit: False
        show ?thesis
        proof (cases "lookup_session ?sid st")
          case None
          with Inr False notinit inv' show ?thesis by (simp add: POST_def)
        next
          case (Some t)
          then have "\<exists>k. transports st k = Some t"
            by (auto simp add: lookup_session_def split: option.splits if_splits)
          with inv have lt: "t < next_transport st" by (auto simp add: registry_inv_def)
          from del [OF inv' lt] Inr False notinit Some show ?thesis
            by (simp add: POST_def POST_continue_def split_def Let_def)
        qed
      qed
    qed
  qed
qed

lemma DELETE_inv: "registry_inv ids st \<Longrightarrow> registry_inv ids (fst (DELETE st req))"
  by (auto simp add: registry_inv_def DELETE_def split: option.splits if_splits)

lemma reachable_inv: "reachable ids st \<Longrightarrow> registry_inv ids st"
proof (induction rule: reachable.induct)
  case start
  then show ?case by (simp add: registry_inv_def initial_server_def)
next
  case (post ids st env req)
  then show ?case by (simp add: POST_inv)
next
  case (delete ids st req)
  then show ?case by (simp add: DELETE_inv)
qed

section \<open>The router: the session id of an initialising call\<close>

lemma lower_session [simp]: "lower ''mcp-session-id'' = ''mcp-session-id''"
  by code_simp

lemma lower_Session [simp]: "lower ''Mcp-Session-Id'' = ''mcp-session-id''"
  by code_simp

lemma lower_content_type [simp]: "lower ''content-type'' = ''content-type''"
  by code_simp

lemma lower_cors [simp]:
  "lower ''Access-Control-Allow-Origin'' = ''access-control-allow-origin''"
  "lower ''Access-Control-Allow-Methods'' = ''access-control-allow-methods''"
  "lower ''Access-Control-Allow-Headers'' = ''access-control-allow-headers''"
  "lower ''Access-Control-Expose-Headers'' = ''access-control-expose-headers''"
  by code_simp+

lemma setCorsHeaders_session [simp]:
  "headers_get (res_headers (setCorsHeaders r)) ''Mcp-Session-Id'' =
   headers_get (res_headers r) ''Mcp-Session-Id''"
  by (simp add: setCorsHeaders_def headers_get_def headers_set_def)

lemma new_NextResponse_session:
  "new_NextResponse body status h = Inr r \<Longrightarrow>
     headers_get (res_headers r) ''Mcp-Session-Id'' = headers_get h ''Mcp-Session-Id''"
  by (auto simp add: new_NextResponse_def headers_get_def headers_set_def Let_def split: if_splits)

text \<open>A name that is a token once lower-cased is a token; so is the session header's.\<close>

lemma token_char_lower: "token_char (lower_char c) \<Longrightarrow> token_char c"
  by (cases "65 \<le> (of_char c :: nat) \<and> (of_char c :: nat) \<le> 90")
     (auto simp add: token_char_def lower_char_def Let_def)

lemma valid_header_name_lower: "valid_header_name (lower k) \<Longrightarrow> valid_header_name k"
  by (auto simp add: valid_header_name_def lower_def list_all_iff token_char_lower)

lemma valid_session_name: "valid_header_name ''mcp-session-id''"
  by code_simp

text \<open>A value of hexadecimal digits and hyphens is accepted as it is.\<close>

lemma uuid_char_facts:
  "uuid_char c \<Longrightarrow> \<not> http_whitespace c \<and> (of_char c :: nat) < 0xC4 \<and>
     c \<noteq> CHR 0x00 \<and> c \<noteq> CHR 0x0A \<and> c \<noteq> CHR 0x0D"
  by (auto simp add: uuid_char_def http_whitespace_def)

lemma normalize_value_id:
  assumes "list_all (\<lambda>c. \<not> http_whitespace c) v"
  shows "normalize_value v = v"
proof (cases v)
  case Nil
  then show ?thesis by (simp add: normalize_value_def)
next
  case (Cons a w)
  from assms Cons have a: "dropWhile http_whitespace v = v" by simp
  from Cons have ne: "v \<noteq> []" by simp
  with assms have "\<not> http_whitespace (last v)"
    by (metis last_in_set list_all_iff)
  with ne have "\<not> http_whitespace (hd (rev v))" by (simp add: hd_rev)
  then have b: "dropWhile http_whitespace (rev v) = rev v"
    by (simp add: dropWhile_eq_self_iff)
  show ?thesis by (simp add: normalize_value_def a b)
qed

lemma uuid_value:
  assumes "list_all uuid_char v"
  shows "valid_header_value v \<and> normalize_value v = v"
proof -
  from assms have w: "list_all (\<lambda>c. \<not> http_whitespace c) v"
    by (auto simp add: list_all_iff uuid_char_facts)
  have n: "normalize_value v = v" by (rule normalize_value_id [OF w])
  from assms show ?thesis
    by (auto simp add: valid_header_value_def n list_all_iff uuid_char_facts)
qed

lemma fold_engine_collector:
  "snd (fold (apply_engine_action t) acts (st, c)) = run_ops (response_ops acts) c"
proof (induction acts arbitrary: st c)
  case Nil
  then show ?case by simp
next
  case (Cons a acts)
  show ?case
    by (cases a) (simp_all add: Cons.IH split: option.splits)
qed

lemma assign_header_other:
  "lower k \<noteq> n \<Longrightarrow>
     filter (\<lambda>kv. lower (fst kv) = n) (assign_header k v R) = filter (\<lambda>kv. lower (fst kv) = n) R"
  by (induction R) auto

lemma assign_header_first:
  "lower k = n \<Longrightarrow> filter (\<lambda>kv. lower (fst kv) = n) R = [] \<Longrightarrow>
     filter (\<lambda>kv. lower (fst kv) = n) (assign_header k v R) = [(k, v)]"
  by (induction R) (auto split: if_splits)

lemma Object_assign_other:
  "list_all (\<lambda>kv. lower (fst kv) \<noteq> n) hs \<Longrightarrow>
     filter (\<lambda>kv. lower (fst kv) = n) (Object_assign R hs) = filter (\<lambda>kv. lower (fst kv) = n) R"
  unfolding Object_assign_def
  by (induction hs arbitrary: R) (auto simp add: assign_header_other)

lemma Object_assign_append:
  "Object_assign R (xs @ ys) = Object_assign (Object_assign R xs) ys"
  by (simp add: Object_assign_def)

lemma Object_assign_Cons:
  "Object_assign R ((k, v) # ys) = Object_assign (assign_header k v R) ys"
  by (simp add: Object_assign_def)

lemma Object_assign_session:
  assumes "lower k = n" and "list_all (\<lambda>kv. lower (fst kv) \<noteq> n) (hs1 @ hs2)"
  shows "filter (\<lambda>kv. lower (fst kv) = n) (Object_assign [] (hs1 @ (k, v) # hs2)) = [(k, v)]"
proof -
  from assms(2) have o1: "list_all (\<lambda>kv. lower (fst kv) \<noteq> n) hs1"
    and o2: "list_all (\<lambda>kv. lower (fst kv) \<noteq> n) hs2" by simp_all
  have a: "filter (\<lambda>kv. lower (fst kv) = n) (Object_assign [] hs1) = []"
    using Object_assign_other [OF o1, of "[]"] by simp
  have b: "filter (\<lambda>kv. lower (fst kv) = n) (assign_header k v (Object_assign [] hs1)) = [(k, v)]"
    by (rule assign_header_first [OF assms(1) a])
  show ?thesis
    using Object_assign_other [OF o2, of "assign_header k v (Object_assign [] hs1)"] b
    by (simp add: Object_assign_append Object_assign_Cons)
qed

lemma headerEntries_filter:
  "filter (\<lambda>kv. lower (fst kv) = n) (headerEntries R) =
   headerEntries (filter (\<lambda>kv. lower (fst kv) = n) R)"
proof (induction R)
  case Nil
  then show ?case by simp
next
  case (Cons a R)
  obtain k v where a: "a = (k, v)" by (cases a)
  show ?case
    unfolding a using Cons.IH
    by (cases v) (auto simp add: filter_map o_def)
qed

lemma fill_Headers_other:
  "fill_Headers es h = Inr h' \<Longrightarrow> list_all (\<lambda>kv. lower (fst kv) \<noteq> n) es \<Longrightarrow> h' n = h n"
proof (induction es arbitrary: h)
  case Nil
  then show ?case by simp
next
  case (Cons e es)
  obtain k v where e: "e = (k, v)" by (cases e)
  from Cons.prems(1) obtain h1 where h1: "headers_append k v h = Inr h1"
    and r: "fill_Headers es h1 = Inr h'"
    by (auto simp add: e split: sum.splits)
  from Cons.prems(2) have k: "lower k \<noteq> n" and o: "list_all (\<lambda>kv. lower (fst kv) \<noteq> n) es"
    by (simp_all add: e)
  from h1 k have "h1 n = h n"
    by (auto simp add: headers_append_def split: if_splits)
  with Cons.IH [OF r o] show ?case by simp
qed

lemma fill_Headers_append:
  "fill_Headers (es1 @ es2) h =
     (case fill_Headers es1 h of Inl e \<Rightarrow> Inl e | Inr h1 \<Rightarrow> fill_Headers es2 h1)"
proof (induction es1 arbitrary: h)
  case Nil
  then show ?case by simp
next
  case (Cons e es1)
  obtain k v where e: "e = (k, v)" by (cases e)
  show ?case by (simp add: e Cons.IH split: sum.splits)
qed

lemma new_Headers_single:
  assumes h: "new_Headers (headerEntries R) = Inr h"
    and f: "filter (\<lambda>kv. lower (fst kv) = n) R = [(k, Single v)]"
  shows "h n = Some (normalize_value v)"
proof -
  have "filter (\<lambda>kv. lower (fst kv) = n) (headerEntries R) = [(k, v)]"
    by (simp add: headerEntries_filter f)
  then obtain us vs where split: "headerEntries R = us @ (k, v) # vs"
    and us: "\<forall>u\<in>set us. lower (fst u) \<noteq> n" and k: "lower k = n"
    and vs: "[] = filter (\<lambda>kv. lower (fst kv) = n) vs"
    by (auto simp add: filter_eq_Cons_iff)
  from vs have vs': "list_all (\<lambda>kv. lower (fst kv) \<noteq> n) vs"
    by (metis (mono_tags, lifting) filter_empty_conv list_all_iff)
  from us have us': "list_all (\<lambda>kv. lower (fst kv) \<noteq> n) us" by (simp add: list_all_iff)
  from h obtain h1 h2 where h1: "fill_Headers us Map.empty = Inr h1"
    and h2: "headers_append k v h1 = Inr h2" and h3: "fill_Headers vs h2 = Inr h"
    by (auto simp add: new_Headers_def split fill_Headers_append split: sum.splits)
  from fill_Headers_other [OF h1 us'] have "h1 n = None" by simp
  with h2 k have "h2 n = Some (normalize_value v)"
    by (auto simp add: headers_append_def split: if_splits)
  with fill_Headers_other [OF h3 vs'] show ?thesis by simp
qed

lemma writeHead_fresh:
  "writeHead code (HeadersArg hs) None createServerResponse =
     createServerResponse\<lparr> statusCode := code, prop_statusCode := code,
        headers := Object_assign [] hs, headersSent := True \<rparr>"
  by (simp add: writeHead_def createServerResponse_def)

lemma end_response_built:
  assumes "responsePromise c = None" and "responsePromise (end_response final c) = Some r"
  shows "\<exists>h body. new_Headers (headerEntries (headers c)) = Inr h \<and>
           new_NextResponse body (statusCode c) h = Inr r"
  using assms
  by (auto simp add: end_response_def end_nextResponse_def Let_def split: sum.splits)

text \<open>
  The engine writes the head with the session header and ends the response: what the
  handler returns.
\<close>

lemma delegate_session_header:
  assumes ops: "response_ops acts =
      WriteHead code (HeadersArg (hs1 @ (k, Single v) # hs2)) None # End chunk # later"
    and k: "lower k = ''mcp-session-id''"
    and others: "list_all (\<lambda>kv. lower (fst kv) \<noteq> ''mcp-session-id'') (hs1 @ hs2)"
    and ok: "list_all header_ok (hs1 @ hs2)"
    and v: "list_all uuid_char v"
    and code: "200 \<le> code" "code \<le> 599" "code \<noteq> 204 \<and> code \<noteq> 205 \<and> code \<noteq> 304"
  shows "\<exists>r. snd (delegate env t (acts, Returned) st) = Some r \<and>
           headers_get (res_headers r) ''Mcp-Session-Id'' = Some v \<and> res_status r = code"
proof -
  let ?hs = "hs1 @ (k, Single v) # hs2"
  let ?c1 = "writeHead code (HeadersArg ?hs) None createServerResponse"
  have p1: "responsePromise ?c1 = None" and s1: "statusCode ?c1 = code"
    and h1: "headers ?c1 = Object_assign [] ?hs"
    unfolding writeHead_fresh by (simp_all add: createServerResponse_def)
  have kn: "valid_header_name k"
    by (rule valid_header_name_lower) (simp add: k valid_session_name)
  from uuid_value [OF v] have vv: "valid_header_value v" and nv: "normalize_value v = v"
    by simp_all
  from ok kn vv have "list_all header_ok ?hs" by simp
  then have hok: "list_all header_ok (headers ?c1)"
    unfolding h1 by (simp add: Object_assign_ok)
  from code have c5: "statusCode ?c1 = 204 \<or> statusCode ?c1 = 205 \<or> statusCode ?c1 = 304 \<longrightarrow>
      end_chunks chunk ?c1 = []"
    unfolding s1 by simp
  from end_response_resolves [OF p1 hok _ _ c5] code(1,2)
  obtain r0 where e: "responsePromise (end_response chunk ?c1) = Some r0"
    and st0: "res_status r0 = code"
    unfolding s1 by blast
  from end_response_built [OF p1 e] obtain h body where
    h: "new_Headers (headerEntries (headers ?c1)) = Inr h"
    and r0: "new_NextResponse body code h = Inr r0"
    unfolding s1 by blast
  have c: "responsePromise (snd (fold (apply_engine_action t) acts (st, createServerResponse))) = Some r0"
    using run_ops_settled [OF e, of later] by (simp add: fold_engine_collector ops)
  have f: "filter (\<lambda>kv. lower (fst kv) = ''mcp-session-id'') (headers ?c1) = [(k, Single v)]"
    unfolding h1 by (rule Object_assign_session [OF k others])
  have "h ''mcp-session-id'' = Some v"
    using new_Headers_single [OF h f] by (simp add: nv)
  then have g0: "headers_get (res_headers r0) ''Mcp-Session-Id'' = Some v"
    using new_NextResponse_session [OF r0] by (simp add: headers_get_def)
  from code have "code = 204 \<or> code = 205 \<or> code = 304 \<longrightarrow> Some (response_text r0) = None"
    by simp
  from new_NextResponse_ok [OF code(1,2) this, of "res_headers r0"]
  obtain r where r: "new_NextResponse (Some (response_text r0)) code (res_headers r0) = Inr r"
    and str: "res_status r = code" by blast
  have g: "headers_get (res_headers r) ''Mcp-Session-Id'' = Some v"
    using new_NextResponse_session [OF r] g0 by simp
  have "snd (delegate env t (acts, Returned) st) = Some (setCorsHeaders r)"
    using c r st0 by (simp add: delegate_def split_def)
  with g str show ?thesis by simp
qed

lemma fold_Response_server:
  "fst (fold (apply_engine_action t) (map Response ops) (st, c)) = st"
  by (induction ops arbitrary: c) simp_all

lemma response_ops_map [simp]: "response_ops (map Response ops) = ops"
  by (induction ops) simp_all

lemma engine_input_initialize_chunks:
  "snd (engine_input_initialize req body) = [bodyString (Some body)]"
  by (simp add: engine_input_initialize_def createIncomingMessage_def Readable_from_def
        read_stream_def stream_content_def empty_heap_def split_def Let_def)

lemma POST_initialize_delegate:
  assumes "connect env (next_transport st) = None"
    and "handleRequest env (next_transport st) (randomUUID env)
           (fst (engine_input_initialize req body)) [bodyString (Some body)] = run"
  shows "POST_initialize env req body st =
           delegate env (next_transport st) run (snd (new_transport st))"
  using assms engine_input_initialize_chunks [of req body]
  by (simp add: POST_initialize_def split_def Let_def new_transport_def)

text \<open>The first initialising call, on a server without sessions, leads to \<open>first_session\<close>.\<close>

lemma first_session_POST:
  "fst (POST example_runtime initial_server (example_request [] initialize_body)) = first_session"
proof -
  let ?req = "example_request [] initialize_body"
  let ?u = "''550e8400-e29b-41d4-a716-446655440000''"
  let ?acts = "[AssignSessionId ?u, Call_onsessioninitialized ?u,
            Response (WriteHead 200
               (HeadersArg [(''Content-Type'', Single ''application/json''),
                            (''mcp-session-id'', Single ?u)]) None),
            Response (End (Some (Str ''{}'')))]"
  have a: "req_json ?req = Inr initialize_body" "initialize_body \<noteq> JNull"
    "isInitializeRequest example_runtime initialize_body"
    "map_of (req_headers ?req) ''mcp-session-id'' = None"
    by (simp_all add: example_request_def example_runtime_def example_isInitializeRequest_def
          initialize_body_def)
  have p0: "POST example_runtime initial_server ?req =
              POST_initialize example_runtime ?req initialize_body initial_server"
    unfolding POST_def a by (simp add: a discard_existing_def)
  have c: "connect example_runtime (next_transport initial_server) = None"
    by (simp add: example_runtime_def)
  have r: "handleRequest example_runtime (next_transport initial_server)
             (randomUUID example_runtime)
             (fst (engine_input_initialize ?req initialize_body))
             [bodyString (Some initialize_body)] = (?acts, Returned)"
    by (simp add: example_runtime_def)
  show ?thesis
    unfolding p0 POST_initialize_delegate [OF c r] delegate_fst
    by (simp add: new_transport_def initial_server_def first_session_def)
qed

lemma first_session_reachable:
  "reachable [''550e8400-e29b-41d4-a716-446655440000''] first_session"
proof -
  have u: "randomUUID example_runtime = ''550e8400-e29b-41d4-a716-446655440000''"
    by (simp add: example_runtime_def)
  have "reachable (randomUUID example_runtime # [])
          (fst (POST example_runtime initial_server (example_request [] initialize_body)))"
    by (rule reachable.post [OF reachable.start]) (simp_all add: example_runtime_def)
  then show ?thesis unfolding first_session_POST u .
qed

text \<open>
  Claim C1. The server is in a state it can reach, and the generator gives a value it has
  not given before, of hexadecimal digits and hyphens. The call is an initialize request,
  with any session header or none. The engine, handed the second request object with the
  serialised body as its stream, returns, and the first things it does with the response
  are to write the head and to end the response; the head has a status from 200 to 599
  that allows a body, the generator's id under the session header and under no other
  spelling of that name, and other headers that \<open>new Headers\<close> accepts. Then the
  handler returns a response with that status whose session header holds exactly the
  generator's id. No session of the registry has this id, since the registry holds only
  ids the generator gave before; so it is not the id the client sent, when that one is
  registered.
\<close>

theorem POST_initialize_carries_generated_session_id:
  assumes "reachable ids st" and "randomUUID env \<notin> set ids"
    and "list_all uuid_char (randomUUID env)"
    and "req_json req = Inr body" and "body \<noteq> JNull" and "isInitializeRequest env body"
    and "connect env (next_transport st) = None"
    and "handleRequest env (next_transport st) (randomUUID env)
           (fst (engine_input_initialize req body)) [bodyString (Some body)] = (acts, Returned)"
    and "response_ops acts =
           WriteHead code (HeadersArg (hs1 @ (k, Single (randomUUID env)) # hs2)) None #
           End chunk # later"
    and "lower k = ''mcp-session-id''"
    and "list_all (\<lambda>kv. lower (fst kv) \<noteq> ''mcp-session-id'') (hs1 @ hs2)"
    and "list_all header_ok (hs1 @ hs2)"
    and "200 \<le> code" and "code \<le> 599" and "code \<noteq> 204 \<and> code \<noteq> 205 \<and> code \<noteq> 304"
  shows "\<exists>r. snd (POST env st req) = Some r \<and> res_status r = code \<and>
           headers_get (res_headers r) ''Mcp-Session-Id'' = Some (randomUUID env) \<and>
           transports st (randomUUID env) = None \<and>
           (\<forall>sid. map_of (req_headers req) ''mcp-session-id'' = Some sid \<and>
                  transports st sid \<noteq> None \<longrightarrow> randomUUID env \<noteq> sid)"
proof -
  let ?st0 = "discard_existing (map_of (req_headers req) ''mcp-session-id'') st"
  have n0: "next_transport ?st0 = next_transport st"
    by (simp add: discard_existing_def split: option.splits)
  have c: "connect env (next_transport ?st0) = None"
    using assms(7) by (simp add: n0)
  have r: "handleRequest env (next_transport ?st0) (randomUUID env)
           (fst (engine_input_initialize req body)) [bodyString (Some body)] = (acts, Returned)"
    using assms(8) by (simp add: n0)
  have "POST env st req = POST_initialize env req body ?st0"
    using assms(4-6) by (simp add: POST_def)
  also have "\<dots> = delegate env (next_transport ?st0) (acts, Returned) (snd (new_transport ?st0))"
    by (rule POST_initialize_delegate [OF c r])
  finally have p: "POST env st req =
      delegate env (next_transport ?st0) (acts, Returned) (snd (new_transport ?st0))" .
  from delegate_session_header [OF assms(9-12) assms(3) assms(13-15),
      of env "next_transport ?st0" "snd (new_transport ?st0)"]
  obtain r where res: "snd (POST env st req) = Some r" "res_status r = code"
    "headers_get (res_headers r) ''Mcp-Session-Id'' = Some (randomUUID env)"
    unfolding p by blast
  from reachable_inv [OF assms(1)] assms(2)
  have fresh: "transports st (randomUUID env) = None"
    by (cases "transports st (randomUUID env)") (auto simp add: registry_inv_def)
  then have "\<forall>sid. map_of (req_headers req) ''mcp-session-id'' = Some sid \<and>
                  transports st sid \<noteq> None \<longrightarrow> randomUUID env \<noteq> sid"
    by auto
  with res fresh show ?thesis by blast
qed

theorem POST_initialize_session_id_witness:
  "reachable [''550e8400-e29b-41d4-a716-446655440000''] first_session \<and>
   transports first_session ''550e8400-e29b-41d4-a716-446655440000'' \<noteq> None \<and>
   isInitializeRequest second_runtime initialize_body \<and>
   (\<exists>r. snd (POST second_runtime first_session
            (example_request [(''mcp-session-id'', ''550e8400-e29b-41d4-a716-446655440000'')]
               initialize_body)) = Some r \<and>
        res_status r = 200 \<and>
        headers_get (res_headers r) ''Mcp-Session-Id'' = Some ''6ba7b810-9dad-41d1-80b4-00c04fd430c8'' \<and>
        transports first_session ''6ba7b810-9dad-41d1-80b4-00c04fd430c8'' = None)"
proof -
  let ?u1 = "''550e8400-e29b-41d4-a716-446655440000''"
  let ?u = "''6ba7b810-9dad-41d1-80b4-00c04fd430c8''"
  let ?req = "example_request [(''mcp-session-id'', ?u1)] initialize_body"
  let ?acts = "[AssignSessionId ?u, Call_onsessioninitialized ?u,
            Response (WriteHead 200
               (HeadersArg ([(''Content-Type'', Single ''application/json'')] @
                            (''mcp-session-id'', Single (randomUUID second_runtime)) # [])) None),
            Response (End (Some (Str ''{}'')))]"
  have u: "randomUUID second_runtime = ?u" by (simp add: second_runtime_def example_runtime_def)
  have f: "randomUUID second_runtime \<notin> set [?u1]" unfolding u by simp
  have uc: "list_all uuid_char (randomUUID second_runtime)" unfolding u by code_simp
  have a: "req_json ?req = Inr initialize_body" "initialize_body \<noteq> JNull"
    "isInitializeRequest second_runtime initialize_body"
    "connect second_runtime (next_transport first_session) = None"
    by (simp_all add: example_request_def initialize_body_def second_runtime_def example_runtime_def
          example_isInitializeRequest_def)
  have r: "handleRequest second_runtime (next_transport first_session) (randomUUID second_runtime)
           (fst (engine_input_initialize ?req initialize_body))
           [bodyString (Some initialize_body)] = (?acts, Returned)"
    by (simp add: second_runtime_def example_runtime_def)
  have o: "response_ops ?acts =
           WriteHead 200 (HeadersArg ([(''Content-Type'', Single ''application/json'')] @
                            (''mcp-session-id'', Single (randomUUID second_runtime)) # [])) None #
           End (Some (Str ''{}'')) # []"
    by simp
  have k: "lower ''mcp-session-id'' = ''mcp-session-id''" by simp
  have others: "list_all (\<lambda>kv. lower (fst kv) \<noteq> ''mcp-session-id'')
                  ([(''Content-Type'', Single ''application/json'')] @ [])"
    by code_simp
  have ok: "list_all header_ok ([(''Content-Type'', Single ''application/json'')] @ [])"
    by code_simp
  have s: "(200::nat) \<le> 200" "(200::nat) \<le> 599" "(200::nat) \<noteq> 204 \<and> (200::nat) \<noteq> 205 \<and> (200::nat) \<noteq> 304"
    by simp_all
  have reg: "transports first_session ?u1 \<noteq> None" by (simp add: first_session_def)
  from POST_initialize_carries_generated_session_id
         [OF first_session_reachable f uc a r o k others ok s]
  have "\<exists>r. snd (POST second_runtime first_session ?req) = Some r \<and> res_status r = 200 \<and>
           headers_get (res_headers r) ''Mcp-Session-Id'' = Some (randomUUID second_runtime) \<and>
           transports first_session (randomUUID second_runtime) = None"
    by blast
  then have "\<exists>r. snd (POST second_runtime first_session ?req) = Some r \<and> res_status r = 200 \<and>
           headers_get (res_headers r) ''Mcp-Session-Id'' = Some ?u \<and>
           transports first_session ?u = None"
    unfolding u .
  with first_session_reachable reg a(3) show ?thesis by blast
qed

text \<open>
  Claim C4. The server is in a state it can reach, the generator gives a value it has not
  given before, and an initialize request names a registered id in its session header.
  When \<open>connect\<close> fails, the \<open>catch\<close> block answers, and the server is left
  without the old entry and with the new transport constructed. When \<open>connect\<close>
  succeeds, whatever the engine does, and whether it returns or throws, its actions run on
  the state without the old entry. When the engine assigns the generator's id, reports it
  through \<open>onsessioninitialized\<close>, writes the head with it and ends the response, the
  registry afterwards is the old one without the old id and with the generator's id on the
  new transport, and the response carries that id. The new id differs from the old one;
  the new transport is not the old one, nor any transport of the registry. The whole call
  is the initialising branch, from the construction of the transport on, run on the
  registry without the old entry.
\<close>

theorem POST_reinitialize_supersedes_session:
  assumes "reachable ids st" and "randomUUID env \<notin> set ids"
    and "list_all uuid_char (randomUUID env)"
    and "req_json req = Inr body" and "body \<noteq> JNull" and "isInitializeRequest env body"
    and "map_of (req_headers req) ''mcp-session-id'' = Some sid" and "sid \<noteq> []"
    and "transports st sid = Some old"
  shows
    "(connect env (next_transport st) = Some e \<longrightarrow>
        POST env st req =
          (\<lparr> transports = (transports st)(sid := None),
             transport_sessionId = (transport_sessionId st)(next_transport st := None),
             next_transport = Suc (next_transport st) \<rparr>,
           Some (POST_catch env e))) \<and>
     (connect env (next_transport st) = None \<and>
      handleRequest env (next_transport st) (randomUUID env)
        (fst (engine_input_initialize req body)) [bodyString (Some body)] = (acts, out) \<longrightarrow>
        fst (POST env st req) =
          fst (fold (apply_engine_action (next_transport st)) acts
                 (\<lparr> transports = (transports st)(sid := None),
                    transport_sessionId = (transport_sessionId st)(next_transport st := None),
                    next_transport = Suc (next_transport st) \<rparr>,
                  createServerResponse))) \<and>
     (connect env (next_transport st) = None \<and>
      handleRequest env (next_transport st) (randomUUID env)
        (fst (engine_input_initialize req body)) [bodyString (Some body)] =
        (AssignSessionId (randomUUID env) # Call_onsessioninitialized (randomUUID env) #
           map Response
             (WriteHead code (HeadersArg (hs1 @ (k, Single (randomUUID env)) # hs2)) None #
              End chunk # later),
         Returned) \<and>
      lower k = ''mcp-session-id'' \<and>
      list_all (\<lambda>kv. lower (fst kv) \<noteq> ''mcp-session-id'') (hs1 @ hs2) \<and>
      list_all header_ok (hs1 @ hs2) \<and>
      200 \<le> code \<and> code \<le> 599 \<and> code \<noteq> 204 \<and> code \<noteq> 205 \<and> code \<noteq> 304 \<longrightarrow>
        (\<exists>r. POST env st req =
               (\<lparr> transports = (transports st)(sid := None, randomUUID env \<mapsto> next_transport st),
                  transport_sessionId = (transport_sessionId st)(next_transport st \<mapsto> randomUUID env),
                  next_transport = Suc (next_transport st) \<rparr>,
                Some r) \<and>
             res_status r = code \<and>
             headers_get (res_headers r) ''Mcp-Session-Id'' = Some (randomUUID env))) \<and>
     randomUUID env \<noteq> sid \<and> next_transport st \<noteq> old \<and>
     (\<forall>s. transports st s \<noteq> Some (next_transport st)) \<and>
     POST env st req =
       POST_initialize env req body (st\<lparr> transports := (transports st)(sid := None) \<rparr>)"
proof -
  let ?u = "randomUUID env"
  let ?t = "next_transport st"
  let ?st0 = "st\<lparr> transports := (transports st)(sid := None) \<rparr>"
  let ?S1 = "\<lparr> transports = (transports st)(sid := None),
              transport_sessionId = (transport_sessionId st)(?t := None),
              next_transport = Suc ?t \<rparr>"
  have d: "discard_existing (map_of (req_headers req) ''mcp-session-id'') st = ?st0"
    using assms(7-9) by (simp add: discard_existing_def)
  have p0: "POST env st req = POST_initialize env req body ?st0"
    using assms(4-6) by (simp add: POST_def d)
  have nt: "new_transport ?st0 = (?t, ?S1)"
    by (simp add: new_transport_def)
  have one: "connect env ?t = Some e \<longrightarrow> POST env st req = (?S1, Some (POST_catch env e))"
    unfolding p0 by (simp add: POST_initialize_def nt)
  have run: "\<And>a b. connect env ?t = None \<Longrightarrow>
      handleRequest env ?t ?u (fst (engine_input_initialize req body)) [bodyString (Some body)] =
        (a, b) \<Longrightarrow> POST env st req = delegate env ?t (a, b) ?S1"
  proof -
    fix a b
    assume c: "connect env ?t = None"
      and h: "handleRequest env ?t ?u (fst (engine_input_initialize req body))
                [bodyString (Some body)] = (a, b)"
    from c have c': "connect env (next_transport ?st0) = None" by simp
    from h have h': "handleRequest env (next_transport ?st0) ?u
        (fst (engine_input_initialize req body)) [bodyString (Some body)] = (a, b)" by simp
    from POST_initialize_delegate [OF c' h'] show "POST env st req = delegate env ?t (a, b) ?S1"
      unfolding p0 by (simp add: nt)
  qed
  have two: "connect env ?t = None \<and>
      handleRequest env ?t ?u (fst (engine_input_initialize req body)) [bodyString (Some body)] =
        (acts, out) \<longrightarrow>
      fst (POST env st req) =
        fst (fold (apply_engine_action ?t) acts (?S1, createServerResponse))"
    using run [of acts out] by (auto simp add: delegate_fst)
  let ?ops = "WriteHead code (HeadersArg (hs1 @ (k, Single ?u) # hs2)) None # End chunk # later"
  let ?acts = "AssignSessionId ?u # Call_onsessioninitialized ?u # map Response ?ops"
  let ?S2 = "\<lparr> transports = (transports st)(sid := None, ?u \<mapsto> ?t),
              transport_sessionId = (transport_sessionId st)(?t \<mapsto> ?u),
              next_transport = Suc ?t \<rparr>"
  have three: "connect env ?t = None \<and>
      handleRequest env ?t ?u (fst (engine_input_initialize req body)) [bodyString (Some body)] =
        (?acts, Returned) \<and>
      lower k = ''mcp-session-id'' \<and>
      list_all (\<lambda>kv. lower (fst kv) \<noteq> ''mcp-session-id'') (hs1 @ hs2) \<and>
      list_all header_ok (hs1 @ hs2) \<and>
      200 \<le> code \<and> code \<le> 599 \<and> code \<noteq> 204 \<and> code \<noteq> 205 \<and> code \<noteq> 304 \<longrightarrow>
        (\<exists>r. POST env st req = (?S2, Some r) \<and> res_status r = code \<and>
             headers_get (res_headers r) ''Mcp-Session-Id'' = Some ?u)"
  proof (intro impI, elim conjE)
    assume c: "connect env ?t = None"
      and h: "handleRequest env ?t ?u (fst (engine_input_initialize req body))
                [bodyString (Some body)] = (?acts, Returned)"
      and k: "lower k = ''mcp-session-id''"
      and others: "list_all (\<lambda>kv. lower (fst kv) \<noteq> ''mcp-session-id'') (hs1 @ hs2)"
      and ok: "list_all header_ok (hs1 @ hs2)"
      and c1: "200 \<le> code" and c2: "code \<le> 599"
      and c3: "code \<noteq> 204" and c4: "code \<noteq> 205" and c5: "code \<noteq> 304"
    have p: "POST env st req = delegate env ?t (?acts, Returned) ?S1"
      by (rule run [OF c h])
    have o: "response_ops ?acts = ?ops" by simp
    from c3 c4 c5 have c345: "code \<noteq> 204 \<and> code \<noteq> 205 \<and> code \<noteq> 304" by simp
    from delegate_session_header [OF o k others ok assms(3) c1 c2 c345, of env ?t ?S1]
    obtain res where res: "snd (POST env st req) = Some res" "res_status res = code"
      "headers_get (res_headers res) ''Mcp-Session-Id'' = Some ?u"
      unfolding p by blast
    have s: "fst (POST env st req) = ?S2"
      unfolding p delegate_fst by (simp add: fold_Response_server)
    have "POST env st req = (?S2, Some res)"
      using res(1) s by (cases "POST env st req") simp
    with res(2,3) show "\<exists>r. POST env st req = (?S2, Some r) \<and> res_status r = code \<and>
             headers_get (res_headers r) ''Mcp-Session-Id'' = Some ?u"
      by blast
  qed
  note inv = reachable_inv [OF assms(1)]
  from inv assms(9) have sid: "sid \<in> set ids" and lt: "old < ?t"
    by (auto simp add: registry_inv_def)
  from sid assms(2) have ne: "?u \<noteq> sid" by auto
  from lt have no: "?t \<noteq> old" by simp
  from inv have un: "\<forall>s. transports st s \<noteq> Some ?t"
    by (auto simp add: registry_inv_def)
  from one two three ne no un p0 show ?thesis by blast
qed

theorem POST_reinitialize_witness:
  "reachable [''550e8400-e29b-41d4-a716-446655440000''] first_session \<and>
   transports first_session ''550e8400-e29b-41d4-a716-446655440000'' = Some 0 \<and>
   POST refusing_runtime first_session
      (example_request [(''mcp-session-id'', ''550e8400-e29b-41d4-a716-446655440000'')]
         initialize_body) =
     (\<lparr> transports = Map.empty,
         transport_sessionId = Map.empty(0 \<mapsto> ''550e8400-e29b-41d4-a716-446655440000''),
         next_transport = 2 \<rparr>,
      Some (POST_catch refusing_runtime
              (ErrorInstance ''Already connected'' ''Error: Already connected''))) \<and>
   (\<exists>r. POST second_runtime first_session
      (example_request [(''mcp-session-id'', ''550e8400-e29b-41d4-a716-446655440000'')]
         initialize_body) =
        (\<lparr> transports = Map.empty(''6ba7b810-9dad-41d1-80b4-00c04fd430c8'' \<mapsto> 1),
            transport_sessionId =
              Map.empty(0 \<mapsto> ''550e8400-e29b-41d4-a716-446655440000'',
                        1 \<mapsto> ''6ba7b810-9dad-41d1-80b4-00c04fd430c8''),
            next_transport = 2 \<rparr>,
         Some r) \<and>
      res_status r = 200 \<and>
      headers_get (res_headers r) ''Mcp-Session-Id'' = Some ''6ba7b810-9dad-41d1-80b4-00c04fd430c8'') \<and>
   fst (POST second_runtime first_session
      (example_request [(''mcp-session-id'', ''550e8400-e29b-41d4-a716-446655440000'')]
         initialize_body)) =
     fst (fold (apply_engine_action 1)
            [AssignSessionId ''6ba7b810-9dad-41d1-80b4-00c04fd430c8'',
             Call_onsessioninitialized ''6ba7b810-9dad-41d1-80b4-00c04fd430c8'']
            (\<lparr> transports = Map.empty,
                transport_sessionId = Map.empty(0 \<mapsto> ''550e8400-e29b-41d4-a716-446655440000''),
                next_transport = 2 \<rparr>,
             createServerResponse))"
proof -
  let ?u1 = "''550e8400-e29b-41d4-a716-446655440000''"
  let ?u = "''6ba7b810-9dad-41d1-80b4-00c04fd430c8''"
  let ?req = "example_request [(''mcp-session-id'', ?u1)] initialize_body"
  let ?e = "ErrorInstance ''Already connected'' ''Error: Already connected''"
  have u: "randomUUID second_runtime = ?u" by (simp add: second_runtime_def example_runtime_def)
  have u': "randomUUID refusing_runtime = ?u"
    by (simp add: refusing_runtime_def second_runtime_def example_runtime_def)
  have f: "randomUUID second_runtime \<notin> set [?u1]" unfolding u by simp
  have f': "randomUUID refusing_runtime \<notin> set [?u1]" unfolding u' by simp
  have uc: "list_all uuid_char (randomUUID second_runtime)" unfolding u by code_simp
  have uc': "list_all uuid_char (randomUUID refusing_runtime)" unfolding u' by code_simp
  have a: "req_json ?req = Inr initialize_body" "initialize_body \<noteq> JNull"
    "isInitializeRequest second_runtime initialize_body"
    "map_of (req_headers ?req) ''mcp-session-id'' = Some ?u1" "?u1 \<noteq> []"
    "transports first_session ?u1 = Some 0"
    by (simp_all add: example_request_def initialize_body_def second_runtime_def example_runtime_def
          example_isInitializeRequest_def first_session_def)
  have a3': "isInitializeRequest refusing_runtime initialize_body"
    by (simp add: initialize_body_def refusing_runtime_def second_runtime_def example_runtime_def
          example_isInitializeRequest_def)
  have n: "next_transport first_session = 1" by (simp add: first_session_def)
  have t: "transports first_session = Map.empty(?u1 \<mapsto> 0)"
    and ts: "transport_sessionId first_session = Map.empty(0 \<mapsto> ?u1)"
    by (simp_all add: first_session_def)
  have c': "connect refusing_runtime (next_transport first_session) = Some ?e"
    by (simp add: refusing_runtime_def)
  have c: "connect second_runtime (next_transport first_session) = None"
    by (simp add: second_runtime_def example_runtime_def)
  have r: "handleRequest second_runtime (next_transport first_session) (randomUUID second_runtime)
           (fst (engine_input_initialize ?req initialize_body))
           [bodyString (Some initialize_body)] =
           (AssignSessionId (randomUUID second_runtime) #
            Call_onsessioninitialized (randomUUID second_runtime) #
              map Response
                (WriteHead 200 (HeadersArg ([(''Content-Type'', Single ''application/json'')] @
                     (''mcp-session-id'', Single (randomUUID second_runtime)) # [])) None #
                 End (Some (Str ''{}'')) # []),
            Returned)"
    by (simp add: second_runtime_def example_runtime_def)
  have k: "lower ''mcp-session-id'' = ''mcp-session-id''" by simp
  have others: "list_all (\<lambda>kv. lower (fst kv) \<noteq> ''mcp-session-id'')
                  ([(''Content-Type'', Single ''application/json'')] @ [])"
    by code_simp
  have ok: "list_all header_ok ([(''Content-Type'', Single ''application/json'')] @ [])"
    by code_simp
  have s: "(200::nat) \<le> 200 \<and> (200::nat) \<le> 599 \<and> (200::nat) \<noteq> 204 \<and>
           (200::nat) \<noteq> 205 \<and> (200::nat) \<noteq> 304"
    by simp
  note refused = POST_reinitialize_supersedes_session
      [OF first_session_reachable f' uc' a(1,2) a3' a(4,5,6), where e = ?e, THEN conjunct1]
  from refused c' have one: "POST refusing_runtime first_session ?req =
     (\<lparr> transports = Map.empty, transport_sessionId = Map.empty(0 \<mapsto> ?u1),
         next_transport = 2 \<rparr>,
      Some (POST_catch refusing_runtime ?e))"
    by (simp add: n t ts)
  note served = POST_reinitialize_supersedes_session
      [OF first_session_reachable f uc a, where code = 200
          and ?hs1.0 = "[(''Content-Type'', Single ''application/json'')]"
          and k = "''mcp-session-id''" and ?hs2.0 = "[]"
          and chunk = "Some (Str ''{}'')" and later = "[]",
       THEN conjunct2, THEN conjunct2, THEN conjunct1]
  from served c r k others ok s
  have "\<exists>r. POST second_runtime first_session ?req =
               (\<lparr> transports = (transports first_session)
                     (?u1 := None, randomUUID second_runtime \<mapsto> next_transport first_session),
                  transport_sessionId = (transport_sessionId first_session)
                     (next_transport first_session \<mapsto> randomUUID second_runtime),
                  next_transport = Suc (next_transport first_session) \<rparr>,
                Some r) \<and>
             res_status r = 200 \<and>
             headers_get (res_headers r) ''Mcp-Session-Id'' = Some (randomUUID second_runtime)"
    by blast
  then have three: "\<exists>r. POST second_runtime first_session ?req =
        (\<lparr> transports = Map.empty(?u \<mapsto> 1),
            transport_sessionId = Map.empty(0 \<mapsto> ?u1, 1 \<mapsto> ?u),
            next_transport = 2 \<rparr>,
         Some r) \<and>
      res_status r = 200 \<and> headers_get (res_headers r) ''Mcp-Session-Id'' = Some ?u"
    unfolding u n t ts by (simp add: numeral_2_eq_2)
  note ran = POST_reinitialize_supersedes_session
      [OF first_session_reachable f uc a,
       where acts = "AssignSessionId (randomUUID second_runtime) #
            Call_onsessioninitialized (randomUUID second_runtime) #
              map Response
                (WriteHead 200 (HeadersArg ([(''Content-Type'', Single ''application/json'')] @
                     (''mcp-session-id'', Single (randomUUID second_runtime)) # [])) None #
                 End (Some (Str ''{}'')) # [])"
         and out = Returned,
       THEN conjunct2, THEN conjunct1]
  from ran c r
  have "fst (POST second_runtime first_session ?req) =
          fst (fold (apply_engine_action (next_transport first_session))
                 (AssignSessionId (randomUUID second_runtime) #
                  Call_onsessioninitialized (randomUUID second_runtime) #
                  map Response
                    (WriteHead 200 (HeadersArg ([(''Content-Type'', Single ''application/json'')] @
                         (''mcp-session-id'', Single (randomUUID second_runtime)) # [])) None #
                     End (Some (Str ''{}'')) # []))
                 (\<lparr> transports = (transports first_session)(?u1 := None),
                     transport_sessionId = (transport_sessionId first_session)
                        (next_transport first_session := None),
                     next_transport = Suc (next_transport first_session) \<rparr>,
                  createServerResponse))"
    by blast
  then have two: "fst (POST second_runtime first_session ?req) =
     fst (fold (apply_engine_action 1) [AssignSessionId ?u, Call_onsessioninitialized ?u]
            (\<lparr> transports = Map.empty, transport_sessionId = Map.empty(0 \<mapsto> ?u1),
                next_transport = 2 \<rparr>,
             createServerResponse))"
    unfolding u n t ts by (simp add: numeral_2_eq_2)
  from first_session_reachable a(6) one three two show ?thesis by blast
qed

section \<open>Grapheme counts\<close>

lemma code_points_examples:
  "code_points text_konnichiwa = [0x3053, 0x3093, 0x306B, 0x3061, 0x306F]"
  "code_points text_konnichiwa_wave = [0x3053, 0x3093, 0x306B, 0x3061, 0x306F, 0x1F44B]"
  "code_points text_flag = [0x1F1EF, 0x1F1F5]"
  "code_points text_family = [0x1F468, 0x200D, 0x1F469, 0x200D, 0x1F467, 0x200D, 0x1F466]"
  "code_points text_yoshinoya = [0x20BB7, 0x91CE, 0x5BB6]"
  by (simp_all add: text_konnichiwa_def text_konnichiwa_wave_def text_flag_def text_family_def
        text_yoshinoya_def)

text \<open>
  Claim C8. On a platform that has \<open>Intl.Segmenter\<close>, with a character database that
  says of the code points concerned what Unicode says, \<open>countJapaneseGraphemes\<close> returns
  5 for the five hiragana, 6 with the waving hand added, 1 for the flag, 1 for the family
  of four, and 3 for the word that starts with a surrogate pair.
\<close>

theorem countJapaneseGraphemes_examples:
  assumes "unicode_facts U"
  shows "countJapaneseGraphemes (Some U) text_konnichiwa = 5 \<and>
         countJapaneseGraphemes (Some U) text_konnichiwa_wave = 6 \<and>
         countJapaneseGraphemes (Some U) text_flag = 1 \<and>
         countJapaneseGraphemes (Some U) text_family = 1 \<and>
         countJapaneseGraphemes (Some U) text_yoshinoya = 3"
proof -
  note f = assms [unfolded unicode_facts_def, simplified]
  have 1: "segment U [0x3053, 0x3093, 0x306B, 0x3061, 0x306F] =
             [[0x3053], [0x3093], [0x306B], [0x3061], [0x306F]]"
    using f by (simp add: segment_def no_break_def advance_def start_of_text_def Let_def)
  have 2: "segment U [0x3053, 0x3093, 0x306B, 0x3061, 0x306F, 0x1F44B] =
             [[0x3053], [0x3093], [0x306B], [0x3061], [0x306F], [0x1F44B]]"
    using f by (simp add: segment_def no_break_def advance_def start_of_text_def Let_def)
  have 3: "segment U [0x1F1EF, 0x1F1F5] = [[0x1F1EF, 0x1F1F5]]"
    using f by (simp add: segment_def no_break_def advance_def start_of_text_def Let_def)
  have 4: "segment U [0x1F468, 0x200D, 0x1F469, 0x200D, 0x1F467, 0x200D, 0x1F466] =
             [[0x1F468, 0x200D, 0x1F469, 0x200D, 0x1F467, 0x200D, 0x1F466]]"
    using f by (simp add: segment_def no_break_def advance_def start_of_text_def Let_def)
  have 5: "segment U [0x20BB7, 0x91CE, 0x5BB6] = [[0x20BB7], [0x91CE], [0x5BB6]]"
    using f by (simp add: segment_def no_break_def advance_def start_of_text_def Let_def)
  show ?thesis
    by (simp add: countJapaneseGraphemes_def code_points_examples 1 2 3 4 5)
qed

lemma unicode_facts_fragment: "unicode_facts ucd_fragment"
  by (simp add: unicode_facts_def ucd_fragment_def)

theorem countJapaneseGraphemes_witness:
  "unicode_facts ucd_fragment \<and>
   countJapaneseGraphemes (Some ucd_fragment) text_konnichiwa = 5 \<and>
   countJapaneseGraphemes (Some ucd_fragment) text_konnichiwa_wave = 6 \<and>
   countJapaneseGraphemes (Some ucd_fragment) text_flag = 1 \<and>
   countJapaneseGraphemes (Some ucd_fragment) text_family = 1 \<and>
   countJapaneseGraphemes (Some ucd_fragment) text_yoshinoya = 3"
  using countJapaneseGraphemes_examples [OF unicode_facts_fragment] unicode_facts_fragment by simp

end
